theory Spec2Isabelle
  imports Complex_Main
begin

section \<open>Python exceptions as values\<close>

text \<open>
  Every \<^verbatim>\<open>raise\<close> of \<^verbatim>\<open>sew_resnet.py\<close> is a value of \<open>error\<close>; a function
  that may raise returns \<open>error + 'r\<close> with \<open>Inl\<close> for the exception. The string is the
  message (or the name of the missing key, index or attribute).
\<close>

datatype error =
    NotImplementedError string
  | ValueError string
  | KeyError string
  | IndexError string
  | TypeError string
  | AttributeError string
  | ZeroDivisionError
  | ShapeMismatch
  | EinopsError

type_synonym 'r result = "error + 'r"

definition and_then :: "'r result \<Rightarrow> ('r \<Rightarrow> 'q result) \<Rightarrow> 'q result" where
  "and_then m f = (case m of Inl e \<Rightarrow> Inl e | Inr v \<Rightarrow> f v)"

text \<open>
  An optional Python value is \<open>None\<close> when it is absent or \<^verbatim>\<open>None\<close>: \<open>or_default\<close> is the
  value a parameter or a dictionary lookup with a fallback takes then, \<open>getitem\<close> is
  \<^verbatim>\<open>kwargs[key]\<close>, and \<open>getattr\<close> the read of an attribute that may not have been set.
\<close>

definition or_default :: "'b \<Rightarrow> 'b option \<Rightarrow> 'b" where
  "or_default d v = (case v of None \<Rightarrow> d | Some a \<Rightarrow> a)"

definition getitem :: "string \<Rightarrow> 'v option \<Rightarrow> 'v result" where
  "getitem key v = (case v of None \<Rightarrow> Inl (KeyError key) | Some a \<Rightarrow> Inr a)"

definition getattr :: "string \<Rightarrow> 'v option \<Rightarrow> 'v result" where
  "getattr name v = (case v of None \<Rightarrow> Inl (AttributeError name) | Some a \<Rightarrow> Inr a)"

section \<open>Tensors\<close>

text \<open>
  A tensor is its shape and its elements in row-major order. The elementwise operators of
  the tensor library are embedded for the operands this program gives them: two tensors of
  the same shape, or a Python scalar and a tensor. Operands of unequal shape (which the
  library would either broadcast or reject) are reported as \<open>ShapeMismatch\<close> and are not
  refined further.
\<close>

datatype 'a tensor = Tensor (shape: "nat list") (elems: "'a list")

definition wf_tensor :: "'a tensor \<Rightarrow> bool" where
  "wf_tensor t = (length (elems t) = prod_list (shape t))"

definition t_map :: "('a \<Rightarrow> 'a) \<Rightarrow> 'a tensor \<Rightarrow> 'a tensor" where
  "t_map f x = Tensor (shape x) (map f (elems x))"

definition t_zip :: "('a \<Rightarrow> 'a \<Rightarrow> 'a) \<Rightarrow> 'a tensor \<Rightarrow> 'a tensor \<Rightarrow> 'a tensor result" where
  "t_zip f x y =
     (if shape x = shape y \<and> length (elems x) = length (elems y)
      then Inr (Tensor (shape x) (map2 f (elems x) (elems y)))
      else Inl ShapeMismatch)"

text \<open>\<^verbatim>\<open>x + y\<close>, \<^verbatim>\<open>x * y\<close> on tensors and \<^verbatim>\<open>c - y\<close> for a scalar \<open>c\<close>.\<close>

definition t_add :: "'a::plus tensor \<Rightarrow> 'a tensor \<Rightarrow> 'a tensor result" where
  "t_add x y = t_zip (+) x y"

definition t_mul :: "'a::times tensor \<Rightarrow> 'a tensor \<Rightarrow> 'a tensor result" where
  "t_mul x y = t_zip (*) x y"

definition t_rsub :: "'a::minus \<Rightarrow> 'a tensor \<Rightarrow> 'a tensor" where
  "t_rsub c y = t_map (\<lambda>v. c - v) y"

section \<open>The combination function\<close>

text \<open>
  \<^verbatim>\<open>sew_function(x, y, cnf)\<close>, lines 31-39. The mode is a Python value that the
  constructors default to \<^verbatim>\<open>None\<close>, hence \<open>string option\<close>. The mode is tested before
  any arithmetic is done.
\<close>

definition sew_function ::
  "'a::{plus,times,minus,one} tensor \<Rightarrow> 'a tensor \<Rightarrow> string option \<Rightarrow> 'a tensor result" where
  "sew_function x y cnf =
     (if cnf = Some ''ADD'' then t_add x y
      else if cnf = Some ''AND'' then t_mul x y
      else if cnf = Some ''IAND'' then t_mul x (t_rsub 1 y)
      else Inl (NotImplementedError ''''))"

section \<open>External collaborators\<close>

text \<open>
  A stateless module of the tensor library (convolution, normalisation, pooling, linear
  map) is the function it computes; the constructors of the library are parameters of the
  development, collected in \<open>externals\<close> with the argument lists the source uses:
  \<open>Conv2d in_channels out_channels kernel_size stride padding groups dilation\<close> (always
  without bias here), \<open>BatchNorm2d num_features\<close>, \<open>MaxPool2d kernel_size stride padding\<close>,
  \<open>AdaptiveAvgPool2d output_size\<close> and \<open>Linear in_features out_features\<close>.
  \<open>is_dvs_data\<close> is the dataset test of \<^verbatim>\<open>braincog.datasets\<close>, and
  \<open>Encoder step encode_type layer_by_layer\<close> the encoder the base module builds.
\<close>

type_synonym 'a layer = "'a tensor \<Rightarrow> 'a tensor"

record 'a externals =
  Conv2d :: "nat \<Rightarrow> nat \<Rightarrow> nat \<Rightarrow> nat \<Rightarrow> nat \<Rightarrow> nat \<Rightarrow> nat \<Rightarrow> 'a layer"
  BatchNorm2d :: "nat \<Rightarrow> 'a layer"
  MaxPool2d :: "nat \<Rightarrow> nat \<Rightarrow> nat \<Rightarrow> 'a layer"
  AdaptiveAvgPool2d :: "nat \<times> nat \<Rightarrow> 'a layer"
  Linear :: "nat \<Rightarrow> nat \<Rightarrow> 'a layer"
  is_dvs_data :: "string \<Rightarrow> bool"
  Encoder :: "nat \<Rightarrow> string \<Rightarrow> bool \<Rightarrow> 'a layer"

text \<open>
  Modelled from the spec: the spiking-neuron node of \<^verbatim>\<open>braincog.base.node\<close>, which is
  not part of the sources at hand. The spec describes it as a stateful unit that consumes a
  tensor and an implicit internal membrane state, advances one timestep, returns a tensor,
  and is reset from outside to its initial condition; it is obtained from a zero-argument
  factory. \<open>node_cls\<close> is that factory (the node class with its keyword configuration
  bound), \<open>node\<close> an instance with its current state.
\<close>

record ('a, 's) node_cls =
  rest :: 's
  fire :: "'s \<Rightarrow> 'a tensor \<Rightarrow> 'a tensor \<times> 's"

record ('a, 's) node =
  mem :: 's
  mem_init :: 's
  dynamics :: "'s \<Rightarrow> 'a tensor \<Rightarrow> 'a tensor \<times> 's"

definition new_node :: "('a, 's) node_cls \<Rightarrow> ('a, 's) node" where
  "new_node c = \<lparr>mem = rest c, mem_init = rest c, dynamics = fire c\<rparr>"

definition node_call :: "('a, 's) node \<Rightarrow> 'a tensor \<Rightarrow> 'a tensor \<times> ('a, 's) node" where
  "node_call n x = (let (y, m) = dynamics n (mem n) x in (y, n\<lparr>mem := m\<rparr>))"

definition n_reset :: "('a, 's) node \<Rightarrow> ('a, 's) node" where
  "n_reset n = n\<lparr>mem := mem_init n\<rparr>"

section \<open>Residual blocks\<close>

text \<open>\<^verbatim>\<open>conv3x3\<close> and \<^verbatim>\<open>conv1x1\<close>, lines 43-51.\<close>

definition conv3x3 :: "'a externals \<Rightarrow> nat \<Rightarrow> nat \<Rightarrow> nat \<Rightarrow> nat \<Rightarrow> nat \<Rightarrow> 'a layer" where
  "conv3x3 env in_planes out_planes stride groups dilation =
     Conv2d env in_planes out_planes 3 stride dilation groups dilation"

definition conv1x1 :: "'a externals \<Rightarrow> nat \<Rightarrow> nat \<Rightarrow> nat \<Rightarrow> 'a layer" where
  "conv1x1 env in_planes out_planes stride = Conv2d env in_planes out_planes 1 stride 0 1 1"

text \<open>
  The two block classes. \<^verbatim>\<open>downsample\<close> and \<^verbatim>\<open>downsample_sn\<close> are set together by
  \<^verbatim>\<open>__init__\<close> (the node exists exactly when the projection does), so they are one
  optional pair.
\<close>

record ('a, 's) basic_block =
  bb_conv1 :: "'a layer"
  bb_bn1 :: "'a layer"
  bb_node1 :: "('a, 's) node"
  bb_conv2 :: "'a layer"
  bb_bn2 :: "'a layer"
  bb_node2 :: "('a, 's) node"
  bb_downsample :: "('a layer \<times> ('a, 's) node) option"
  bb_stride :: nat
  bb_cnf :: "string option"

record ('a, 's) bottleneck =
  bk_conv1 :: "'a layer"
  bk_bn1 :: "'a layer"
  bk_node1 :: "('a, 's) node"
  bk_conv2 :: "'a layer"
  bk_bn2 :: "'a layer"
  bk_node2 :: "('a, 's) node"
  bk_conv3 :: "'a layer"
  bk_bn3 :: "'a layer"
  bk_node3 :: "('a, 's) node"
  bk_downsample :: "('a layer \<times> ('a, 's) node) option"
  bk_stride :: nat
  bk_cnf :: "string option"

text \<open>\<^verbatim>\<open>BasicBlock.__init__\<close>, lines 57-77.\<close>

definition BasicBlock_init ::
  "'a externals \<Rightarrow> nat \<Rightarrow> nat \<Rightarrow> nat \<Rightarrow> 'a layer option \<Rightarrow> nat \<Rightarrow> nat \<Rightarrow> nat
     \<Rightarrow> (nat \<Rightarrow> 'a layer) option \<Rightarrow> string option \<Rightarrow> ('a, 's) node_cls
     \<Rightarrow> ('a, 's) basic_block result" where
  "BasicBlock_init env inplanes planes stride downsample groups base_width dilation
       norm_layer cnf node =
     (let norm_layer = or_default (BatchNorm2d env) norm_layer in
      if groups \<noteq> 1 \<or> base_width \<noteq> 64
      then Inl (ValueError ''BasicBlock only supports groups=1 and base_width=64'')
      else if dilation > 1
      then Inl (NotImplementedError ''Dilation > 1 not supported in BasicBlock'')
      else Inr \<lparr>bb_conv1 = conv3x3 env inplanes planes stride 1 1,
                bb_bn1 = norm_layer planes,
                bb_node1 = new_node node,
                bb_conv2 = conv3x3 env planes planes 1 1 1,
                bb_bn2 = norm_layer planes,
                bb_node2 = new_node node,
                bb_downsample = map_option (\<lambda>d. (d, new_node node)) downsample,
                bb_stride = stride,
                bb_cnf = cnf\<rparr>)"

text \<open>\<^verbatim>\<open>BasicBlock.forward\<close>, lines 79-95. The block is returned with its nodes advanced.\<close>

definition BasicBlock_forward ::
  "('a::{plus,times,minus,one}, 's) basic_block \<Rightarrow> 'a tensor
     \<Rightarrow> ('a tensor \<times> ('a, 's) basic_block) result" where
  "BasicBlock_forward b x =
     (let identity = x;
          out = bb_conv1 b x;
          out = bb_bn1 b out;
          (out, n1) = node_call (bb_node1 b) out;
          out = bb_conv2 b out;
          out = bb_bn2 b out;
          (out, n2) = node_call (bb_node2 b) out;
          (identity, ds) =
            (case bb_downsample b of
               None \<Rightarrow> (identity, None)
             | Some (d, sn) \<Rightarrow> (let (i, sn') = node_call sn (d x) in (i, Some (d, sn'))))
      in and_then (sew_function identity out (bb_cnf b))
           (\<lambda>out. Inr (out, b\<lparr>bb_node1 := n1, bb_node2 := n2, bb_downsample := ds\<rparr>)))"

text \<open>
  \<^verbatim>\<open>Bottleneck.__init__\<close>, lines 109-129; it has no \<^verbatim>\<open>raise\<close> of its own. The width
  \<^verbatim>\<open>int(planes * (base_width / 64.)) * groups\<close> is computed on naturals, which agrees
  with the floating-point expression whenever that one is exact.
\<close>

definition Bottleneck_expansion :: nat where
  "Bottleneck_expansion = 4"

definition Bottleneck_init ::
  "'a externals \<Rightarrow> nat \<Rightarrow> nat \<Rightarrow> nat \<Rightarrow> 'a layer option \<Rightarrow> nat \<Rightarrow> nat \<Rightarrow> nat
     \<Rightarrow> (nat \<Rightarrow> 'a layer) option \<Rightarrow> string option \<Rightarrow> ('a, 's) node_cls
     \<Rightarrow> ('a, 's) bottleneck" where
  "Bottleneck_init env inplanes planes stride downsample groups base_width dilation
       norm_layer cnf node =
     (let norm_layer = or_default (BatchNorm2d env) norm_layer;
          width = (planes * base_width) div 64 * groups
      in \<lparr>bk_conv1 = conv1x1 env inplanes width 1,
          bk_bn1 = norm_layer width,
          bk_node1 = new_node node,
          bk_conv2 = conv3x3 env width width stride groups dilation,
          bk_bn2 = norm_layer width,
          bk_node2 = new_node node,
          bk_conv3 = conv1x1 env width (planes * Bottleneck_expansion) 1,
          bk_bn3 = norm_layer (planes * Bottleneck_expansion),
          bk_node3 = new_node node,
          bk_downsample = map_option (\<lambda>d. (d, new_node node)) downsample,
          bk_stride = stride,
          bk_cnf = cnf\<rparr>)"

text \<open>\<^verbatim>\<open>Bottleneck.forward\<close>, lines 131-151.\<close>

definition Bottleneck_forward ::
  "('a::{plus,times,minus,one}, 's) bottleneck \<Rightarrow> 'a tensor
     \<Rightarrow> ('a tensor \<times> ('a, 's) bottleneck) result" where
  "Bottleneck_forward b x =
     (let identity = x;
          out = bk_conv1 b x;
          out = bk_bn1 b out;
          (out, n1) = node_call (bk_node1 b) out;
          out = bk_conv2 b out;
          out = bk_bn2 b out;
          (out, n2) = node_call (bk_node2 b) out;
          out = bk_conv3 b out;
          out = bk_bn3 b out;
          (out, n3) = node_call (bk_node3 b) out;
          (identity, ds) =
            (case bk_downsample b of
               None \<Rightarrow> (identity, None)
             | Some (d, sn) \<Rightarrow> (let (i, sn') = node_call sn (d x) in (i, Some (d, sn'))))
      in and_then (sew_function out identity (bk_cnf b))
           (\<lambda>out. Inr (out, b\<lparr>bk_node1 := n1, bk_node2 := n2, bk_node3 := n3,
                                 bk_downsample := ds\<rparr>)))"

text \<open>
  The two paths of a block, named for the statements below: the output of the main
  (residual) path, and the output of the shortcut (identity) path.
\<close>

definition BasicBlock_main_path :: "('a, 's) basic_block \<Rightarrow> 'a tensor \<Rightarrow> 'a tensor" where
  "BasicBlock_main_path b x =
     (let out = fst (node_call (bb_node1 b) (bb_bn1 b (bb_conv1 b x)))
      in fst (node_call (bb_node2 b) (bb_bn2 b (bb_conv2 b out))))"

definition Bottleneck_main_path :: "('a, 's) bottleneck \<Rightarrow> 'a tensor \<Rightarrow> 'a tensor" where
  "Bottleneck_main_path b x =
     (let out = fst (node_call (bk_node1 b) (bk_bn1 b (bk_conv1 b x)));
          out = fst (node_call (bk_node2 b) (bk_bn2 b (bk_conv2 b out)))
      in fst (node_call (bk_node3 b) (bk_bn3 b (bk_conv3 b out))))"

definition identity_path ::
  "('a layer \<times> ('a, 's) node) option \<Rightarrow> 'a tensor \<Rightarrow> 'a tensor" where
  "identity_path downsample x =
     (case downsample of None \<Rightarrow> x | Some (d, sn) \<Rightarrow> fst (node_call sn (d x)))"

definition returned :: "('r \<times> 'm) result \<Rightarrow> 'r result" where
  "returned r = (case r of Inl e \<Rightarrow> Inl e | Inr (v, m) \<Rightarrow> Inr v)"

section \<open>Layer stacks\<close>

text \<open>
  The \<^verbatim>\<open>block\<close> argument of the network constructors is one of the two block classes;
  \<open>block_init\<close> is the call \<^verbatim>\<open>block(...)\<close> and \<open>block_forward\<close> the call of an instance.
\<close>

datatype block_cls = BasicBlock | Bottleneck

fun expansion :: "block_cls \<Rightarrow> nat" where
  "expansion BasicBlock = 1"
| "expansion Bottleneck = Bottleneck_expansion"

datatype ('a, 's) block =
    BasicBlockObj "('a, 's) basic_block"
  | BottleneckObj "('a, 's) bottleneck"

definition block_init ::
  "'a externals \<Rightarrow> block_cls \<Rightarrow> nat \<Rightarrow> nat \<Rightarrow> nat \<Rightarrow> 'a layer option \<Rightarrow> nat \<Rightarrow> nat \<Rightarrow> nat
     \<Rightarrow> (nat \<Rightarrow> 'a layer) option \<Rightarrow> string option \<Rightarrow> ('a, 's) node_cls
     \<Rightarrow> ('a, 's) block result" where
  "block_init env block inplanes planes stride downsample groups base_width dilation
       norm_layer cnf node =
     (case block of
        BasicBlock \<Rightarrow>
          and_then (BasicBlock_init env inplanes planes stride downsample groups base_width
                      dilation norm_layer cnf node)
            (\<lambda>b. Inr (BasicBlockObj b))
      | Bottleneck \<Rightarrow>
          Inr (BottleneckObj (Bottleneck_init env inplanes planes stride downsample groups
                 base_width dilation norm_layer cnf node)))"

fun block_forward ::
  "('a::{plus,times,minus,one}, 's) block \<Rightarrow> 'a tensor \<Rightarrow> ('a tensor \<times> ('a, 's) block) result" where
  "block_forward (BasicBlockObj b) x =
     and_then (BasicBlock_forward b x) (\<lambda>(y, b'). Inr (y, BasicBlockObj b'))"
| "block_forward (BottleneckObj b) x =
     and_then (Bottleneck_forward b x) (\<lambda>(y, b'). Inr (y, BottleneckObj b'))"

text \<open>Calling an \<^verbatim>\<open>nn.Sequential\<close> of blocks: each block in turn.\<close>

fun Sequential_forward ::
  "('a::{plus,times,minus,one}, 's) block list \<Rightarrow> 'a tensor
     \<Rightarrow> ('a tensor \<times> ('a, 's) block list) result" where
  "Sequential_forward [] x = Inr (x, [])"
| "Sequential_forward (b # bs) x =
     and_then (block_forward b x) (\<lambda>(y, b').
     and_then (Sequential_forward bs y) (\<lambda>(z, bs'). Inr (z, b' # bs')))"

text \<open>
  \<^verbatim>\<open>_make_layer\<close>, lines 228-250 (the same text in the three network classes). The
  attributes it reads and writes on \<^verbatim>\<open>self\<close> while the network is under construction
  are \<^verbatim>\<open>inplanes\<close> and \<^verbatim>\<open>dilation\<close>, threaded as \<open>mk_state\<close>; \<^verbatim>\<open>_norm_layer\<close>,
  \<^verbatim>\<open>groups\<close> and \<^verbatim>\<open>base_width\<close> are only read and passed as arguments.
  \<open>repeat_init\<close> is the loop \<^verbatim>\<open>for _ in range(1, blocks)\<close>, which constructs one block per
  round.
\<close>

record mk_state =
  inplanes :: nat
  dilation :: nat

fun repeat_init :: "nat \<Rightarrow> 'b result \<Rightarrow> 'b list result" where
  "repeat_init 0 mk = Inr []"
| "repeat_init (Suc n) mk =
     and_then mk (\<lambda>b. and_then (repeat_init n mk) (\<lambda>bs. Inr (b # bs)))"

definition make_layer ::
  "'a externals \<Rightarrow> (nat \<Rightarrow> 'a layer) \<Rightarrow> nat \<Rightarrow> nat \<Rightarrow> block_cls \<Rightarrow> nat \<Rightarrow> nat \<Rightarrow> nat \<Rightarrow> bool
     \<Rightarrow> string option \<Rightarrow> ('a, 's) node_cls \<Rightarrow> mk_state
     \<Rightarrow> (('a, 's) block list \<times> mk_state) result" where
  "make_layer env norm_layer groups base_width block planes blocks stride dilate cnf node self =
     (let previous_dilation = dilation self;
          (self, stride) =
            (if dilate then (self\<lparr>dilation := dilation self * stride\<rparr>, 1) else (self, stride));
          downsample =
            (if stride \<noteq> 1 \<or> inplanes self \<noteq> planes * expansion block
             then Some (\<lambda>x. norm_layer (planes * expansion block)
                          (conv1x1 env (inplanes self) (planes * expansion block) stride x))
             else None)
      in and_then (block_init env block (inplanes self) planes stride downsample groups
                     base_width previous_dilation (Some norm_layer) cnf node)
           (\<lambda>first.
              let self = self\<lparr>inplanes := planes * expansion block\<rparr>
              in and_then (repeat_init (blocks - 1)
                             (block_init env block (inplanes self) planes 1 None groups
                                base_width (dilation self) (Some norm_layer) cnf node))
                   (\<lambda>others. Inr (first # others, self))))"

section \<open>Networks\<close>

text \<open>
  Keyword arguments. The factory functions pass \<^verbatim>\<open>**kwargs\<close> on to a network
  constructor; a key that is absent is \<open>None\<close>. Keys that name a parameter of the
  constructor are bound to it (\<open>kw_num_classes\<close> to \<open>kw_norm_layer\<close>); the others stay in
  the constructor's own \<^verbatim>\<open>kwargs\<close>, where the source reads \<^verbatim>\<open>node_type\<close>,
  \<^verbatim>\<open>dataset\<close>, \<^verbatim>\<open>once\<close> and \<^verbatim>\<open>sum_output\<close>, and the base module
  \<^verbatim>\<open>layer_by_layer\<close>.
\<close>

record ('a, 's) kwargs =
  kw_num_classes :: "nat option"
  kw_step :: "nat option"
  kw_encode_type :: "string option"
  kw_groups :: "nat option"
  kw_width_per_group :: "nat option"
  kw_replace_stride_with_dilation :: "bool list option"
  kw_norm_layer :: "(nat \<Rightarrow> 'a layer) option"
  kw_node_type :: "('a, 's) node_cls option"
  kw_dataset :: "string option"
  kw_once :: "bool option"
  kw_sum_output :: "bool option"
  kw_layer_by_layer :: "bool option"

text \<open>
  An instance of one of the three network classes. A Python object has the attributes its
  constructor set: \<^verbatim>\<open>maxpool\<close>, \<^verbatim>\<open>layer4\<close>, \<^verbatim>\<open>fc\<close>, \<^verbatim>\<open>fc1\<close>, \<^verbatim>\<open>fc2\<close> and
  \<^verbatim>\<open>node2\<close> are set by some of the three constructors only, so they are optional, and
  reading one that was not set raises \<open>AttributeError\<close> (\<open>getattr\<close>). The attributes every
  constructor sets are plain fields.

  The first three fields are those the base module of
  \<^verbatim>\<open>braincog.model_zoo.base_module\<close> keeps, as the spec lists them: \<open>step\<close> (the timestep
  count), \<open>layer_by_layer\<close> (the execution-mode flag) and the encoder.
\<close>

record ('a, 's) sew_net =
  step :: nat
  layer_by_layer :: bool
  encoder :: "'a layer"
  num_classes :: nat
  once :: bool
  sum_output :: bool
  dataset :: string
  conv1 :: "'a layer"
  bn1 :: "'a layer"
  node1 :: "('a, 's) node"
  maxpool :: "'a layer option"
  layer1 :: "('a, 's) block list"
  layer2 :: "('a, 's) block list"
  layer3 :: "('a, 's) block list"
  layer4 :: "('a, 's) block list option"
  avgpool :: "'a layer"
  fc :: "'a layer option"
  fc1 :: "'a layer option"
  fc2 :: "'a layer option"
  node2 :: "('a, 's) node option"

text \<open>
  Modelled from the spec: \<^verbatim>\<open>reset()\<close> of the base module
  (\<^verbatim>\<open>braincog.model_zoo.base_module\<close>), which is not part of the sources at hand. The
  spec says that it clears all descendant node state, every spiking node of the network
  going back to its initial condition: the stem node, the nodes of every block of every
  stack (the shortcut's node included) and the node of the classifier head.
\<close>

fun reset_block :: "('a, 's) block \<Rightarrow> ('a, 's) block" where
  "reset_block (BasicBlockObj b) =
     BasicBlockObj (b\<lparr>bb_node1 := n_reset (bb_node1 b), bb_node2 := n_reset (bb_node2 b),
                      bb_downsample := map_option (\<lambda>(d, sn). (d, n_reset sn)) (bb_downsample b)\<rparr>)"
| "reset_block (BottleneckObj b) =
     BottleneckObj (b\<lparr>bk_node1 := n_reset (bk_node1 b), bk_node2 := n_reset (bk_node2 b),
                      bk_node3 := n_reset (bk_node3 b),
                      bk_downsample := map_option (\<lambda>(d, sn). (d, n_reset sn)) (bk_downsample b)\<rparr>)"

definition reset :: "('a, 's) sew_net \<Rightarrow> ('a, 's) sew_net" where
  "reset net =
     net\<lparr>node1 := n_reset (node1 net),
         layer1 := map reset_block (layer1 net),
         layer2 := map reset_block (layer2 net),
         layer3 := map reset_block (layer3 net),
         layer4 := map_option (map reset_block) (layer4 net),
         node2 := map_option n_reset (node2 net)\<rparr>"

text \<open>Python's \<^verbatim>\<open>layers[i]\<close> on a list and the text of a list of booleans.\<close>

definition index :: "'b list \<Rightarrow> nat \<Rightarrow> 'b result" where
  "index xs i = (if i < length xs then Inr (xs ! i) else Inl (IndexError ''list index out of range''))"

fun repr_bools :: "bool list \<Rightarrow> string" where
  "repr_bools [] = ''''"
| "repr_bools [b] = (if b then ''True'' else ''False'')"
| "repr_bools (b # bs) = (if b then ''True'' else ''False'') @ '', '' @ repr_bools bs"

definition dilation_error :: "bool list \<Rightarrow> error" where
  "dilation_error l =
     ValueError (''replace_stride_with_dilation should be None or a 3-element tuple, got [''
                 @ repr_bools l @ '']'')"

text \<open>
  \<^verbatim>\<open>SEWResNet.__init__\<close>, lines 158-226. The weight initialisation at its end (lines
  211-226, with \<^verbatim>\<open>zero_init_residual\<close>) changes learned parameters only; the layers are
  the functions \<open>externals\<close> gives, and no statement below depends on their weights.
\<close>

definition SEWResNet_init ::
  "'a externals \<Rightarrow> block_cls \<Rightarrow> nat list \<Rightarrow> nat \<Rightarrow> nat \<Rightarrow> string \<Rightarrow> nat \<Rightarrow> nat
     \<Rightarrow> bool list option \<Rightarrow> (nat \<Rightarrow> 'a layer) option \<Rightarrow> string option \<Rightarrow> ('a, 's) kwargs
     \<Rightarrow> ('a, 's) sew_net result" where
  "SEWResNet_init env block layers n_classes n_step encode_type groups width_per_group
       replace_stride_with_dilation norm_layer cnf kw =
     (let lbl = or_default False (kw_layer_by_layer kw);
          norm_layer = or_default (BatchNorm2d env) norm_layer in
      and_then (getitem ''node_type'' (kw_node_type kw)) (\<lambda>node.
      let is_once = or_default False (kw_once kw);
          is_sum = or_default True (kw_sum_output kw) in
      and_then (getitem ''dataset'' (kw_dataset kw)) (\<lambda>ds.
      let init_channel = (if \<not> is_dvs_data env ds then 3 else 2);
          self = \<lparr>inplanes = 64, dilation = 1\<rparr>;
          rswd = or_default [False, False, False] replace_stride_with_dilation in
      if length rswd \<noteq> 3 then Inl (dilation_error rswd)
      else
        let base_width = width_per_group in
        and_then (index layers 0) (\<lambda>n1.
        and_then (make_layer env norm_layer groups base_width block 64 n1 1 False cnf node self)
          (\<lambda>(l1, self).
        and_then (index layers 1) (\<lambda>n2.
        and_then (make_layer env norm_layer groups base_width block 128 n2 2 (rswd ! 0) cnf node self)
          (\<lambda>(l2, self).
        and_then (index layers 2) (\<lambda>n3.
        and_then (make_layer env norm_layer groups base_width block 256 n3 2 (rswd ! 1) cnf node self)
          (\<lambda>(l3, self).
        and_then (index layers 3) (\<lambda>n4.
        and_then (make_layer env norm_layer groups base_width block 512 n4 2 (rswd ! 2) cnf node self)
          (\<lambda>(l4, self).
        Inr \<lparr>step = n_step, layer_by_layer = lbl, encoder = Encoder env n_step encode_type lbl,
             num_classes = n_classes, once = is_once, sum_output = is_sum, dataset = ds,
             conv1 = Conv2d env init_channel 64 7 2 3 1 1,
             bn1 = norm_layer 64,
             node1 = new_node node,
             maxpool = Some (MaxPool2d env 3 2 1),
             layer1 = l1, layer2 = l2, layer3 = l3, layer4 = Some l4,
             avgpool = AdaptiveAvgPool2d env (1, 1),
             fc = Some (Linear env (512 * expansion block) n_classes),
             fc1 = None, fc2 = None, node2 = None\<rparr>)))))))))))"

text \<open>\<^verbatim>\<open>SEWResNet19.__init__\<close>, lines 332-399.\<close>

definition SEWResNet19_init ::
  "'a externals \<Rightarrow> block_cls \<Rightarrow> nat list \<Rightarrow> nat \<Rightarrow> nat \<Rightarrow> string \<Rightarrow> nat \<Rightarrow> nat
     \<Rightarrow> bool list option \<Rightarrow> (nat \<Rightarrow> 'a layer) option \<Rightarrow> string option \<Rightarrow> ('a, 's) kwargs
     \<Rightarrow> ('a, 's) sew_net result" where
  "SEWResNet19_init env block layers n_classes n_step encode_type groups width_per_group
       replace_stride_with_dilation norm_layer cnf kw =
     (let lbl = or_default False (kw_layer_by_layer kw);
          norm_layer = or_default (BatchNorm2d env) norm_layer in
      and_then (getitem ''node_type'' (kw_node_type kw)) (\<lambda>node.
      let is_once = or_default False (kw_once kw);
          is_sum = or_default True (kw_sum_output kw) in
      and_then (getitem ''dataset'' (kw_dataset kw)) (\<lambda>ds.
      let init_channel = (if \<not> is_dvs_data env ds then 3 else 2);
          self = \<lparr>inplanes = 64, dilation = 1\<rparr>;
          rswd = or_default [False, False, False] replace_stride_with_dilation in
      if length rswd \<noteq> 3 then Inl (dilation_error rswd)
      else
        let base_width = width_per_group in
        and_then (index layers 0) (\<lambda>n1.
        and_then (make_layer env norm_layer groups base_width block 128 n1 1 False cnf node self)
          (\<lambda>(l1, self).
        and_then (index layers 1) (\<lambda>n2.
        and_then (make_layer env norm_layer groups base_width block 256 n2 2 (rswd ! 0) cnf node self)
          (\<lambda>(l2, self).
        and_then (index layers 2) (\<lambda>n3.
        and_then (make_layer env norm_layer groups base_width block 512 n3 2 (rswd ! 1) cnf node self)
          (\<lambda>(l3, self).
        Inr \<lparr>step = n_step, layer_by_layer = lbl, encoder = Encoder env n_step encode_type lbl,
             num_classes = n_classes, once = is_once, sum_output = is_sum, dataset = ds,
             conv1 = Conv2d env init_channel 64 3 1 1 1 1,
             bn1 = norm_layer 64,
             node1 = new_node node,
             maxpool = None,
             layer1 = l1, layer2 = l2, layer3 = l3, layer4 = None,
             avgpool = AdaptiveAvgPool2d env (1, 1),
             fc = None,
             fc1 = Some (Linear env (512 * expansion block) 256),
             fc2 = Some (Linear env 256 n_classes),
             node2 = Some (new_node node)\<rparr>)))))))))"

text \<open>\<^verbatim>\<open>SEWResNetCifar.__init__\<close>, lines 503-570.\<close>

definition SEWResNetCifar_init ::
  "'a externals \<Rightarrow> block_cls \<Rightarrow> nat list \<Rightarrow> nat \<Rightarrow> nat \<Rightarrow> string \<Rightarrow> nat \<Rightarrow> nat
     \<Rightarrow> bool list option \<Rightarrow> (nat \<Rightarrow> 'a layer) option \<Rightarrow> string option \<Rightarrow> ('a, 's) kwargs
     \<Rightarrow> ('a, 's) sew_net result" where
  "SEWResNetCifar_init env block layers n_classes n_step encode_type groups width_per_group
       replace_stride_with_dilation norm_layer cnf kw =
     (let lbl = or_default False (kw_layer_by_layer kw);
          norm_layer = or_default (BatchNorm2d env) norm_layer in
      and_then (getitem ''node_type'' (kw_node_type kw)) (\<lambda>node.
      let is_once = or_default False (kw_once kw);
          is_sum = or_default True (kw_sum_output kw) in
      and_then (getitem ''dataset'' (kw_dataset kw)) (\<lambda>ds.
      let init_channel = (if \<not> is_dvs_data env ds then 3 else 2);
          self = \<lparr>inplanes = 64, dilation = 1\<rparr>;
          rswd = or_default [False, False, False] replace_stride_with_dilation in
      if length rswd \<noteq> 3 then Inl (dilation_error rswd)
      else
        let base_width = width_per_group in
        and_then (index layers 0) (\<lambda>n1.
        and_then (make_layer env norm_layer groups base_width block 128 n1 1 False cnf node self)
          (\<lambda>(l1, self).
        and_then (index layers 1) (\<lambda>n2.
        and_then (make_layer env norm_layer groups base_width block 256 n2 2 (rswd ! 0) cnf node self)
          (\<lambda>(l2, self).
        and_then (index layers 2) (\<lambda>n3.
        and_then (make_layer env norm_layer groups base_width block 512 n3 2 (rswd ! 1) cnf node self)
          (\<lambda>(l3, self).
        Inr \<lparr>step = n_step, layer_by_layer = lbl, encoder = Encoder env n_step encode_type lbl,
             num_classes = n_classes, once = is_once, sum_output = is_sum, dataset = ds,
             conv1 = Conv2d env init_channel 64 3 1 1 1 1,
             bn1 = norm_layer 64,
             node1 = new_node node,
             maxpool = Some (MaxPool2d env 3 2 1),
             layer1 = l1, layer2 = l2, layer3 = l3, layer4 = None,
             avgpool = AdaptiveAvgPool2d env (1, 1),
             fc = Some (Linear env (512 * expansion block) n_classes),
             fc1 = None, fc2 = None, node2 = None\<rparr>)))))))))"

section \<open>Forward passes\<close>

text \<open>
  Tensor operations of the forward passes. \<^verbatim>\<open>torch.flatten(x, 1)\<close> keeps the leading
  dimension and merges the others; \<^verbatim>\<open>inputs[t]\<close> is the slice \<open>t\<close> along the leading
  dimension; \<^verbatim>\<open>rearrange(x, '(t b) c -> t b c', t=step)\<close> splits the leading dimension of
  a matrix and is rejected (\<open>EinopsError\<close>, whatever exception the library raises) unless
  the input is a matrix whose leading dimension is a multiple of a nonzero \<open>t\<close>;
  \<^verbatim>\<open>x.mean(0)\<close> averages over the leading dimension. Scalars are idealised as a field:
  rounding is not modelled.
\<close>

definition flatten1 :: "'a tensor \<Rightarrow> 'a tensor result" where
  "flatten1 x =
     (case shape x of
        n # d # ds \<Rightarrow> Inr (Tensor [n, prod_list (d # ds)] (elems x))
      | _ \<Rightarrow> Inl (IndexError ''Dimension out of range''))"

definition t_index :: "'a tensor \<Rightarrow> nat \<Rightarrow> 'a tensor result" where
  "t_index x t =
     (case shape x of
        [] \<Rightarrow> Inl (IndexError ''invalid index of a 0-dim tensor'')
      | n # ds \<Rightarrow>
          if t < n
          then Inr (Tensor ds (take (prod_list ds) (drop (t * prod_list ds) (elems x))))
          else Inl (IndexError ''index out of range''))"

definition rearrange_tb :: "'a tensor \<Rightarrow> nat \<Rightarrow> 'a tensor result" where
  "rearrange_tb x t =
     (case shape x of
        [n, c] \<Rightarrow> if t \<noteq> 0 \<and> n mod t = 0 then Inr (Tensor [t, n div t, c] (elems x))
                  else Inl EinopsError
      | _ \<Rightarrow> Inl EinopsError)"

definition t_mean0 :: "'a::field tensor \<Rightarrow> 'a tensor result" where
  "t_mean0 x =
     (case shape x of
        [] \<Rightarrow> Inl (IndexError ''Dimension out of range'')
      | t # ds \<Rightarrow>
          Inr (Tensor ds
                 (map (\<lambda>j. (\<Sum>i\<leftarrow>[0..<t]. elems x ! (i * prod_list ds + j)) / of_nat t)
                    [0..<prod_list ds])))"

text \<open>
  \<^verbatim>\<open>sum(outputs) / len(outputs)\<close>, line 306. Python's \<^verbatim>\<open>sum\<close> starts from the integer
  \<^verbatim>\<open>0\<close>, adds the first tensor to it and then each further tensor to the running
  total; on the empty list it returns \<^verbatim>\<open>0\<close>, and \<^verbatim>\<open>0 / 0\<close> raises.
\<close>

definition t_radd :: "'a::plus \<Rightarrow> 'a tensor \<Rightarrow> 'a tensor" where
  "t_radd c y = t_map (\<lambda>v. c + v) y"

fun sum_from :: "'a::plus tensor \<Rightarrow> 'a tensor list \<Rightarrow> 'a tensor result" where
  "sum_from acc [] = Inr acc"
| "sum_from acc (y # ys) = and_then (t_add acc y) (\<lambda>acc. sum_from acc ys)"

definition sum_div_len :: "'a::field tensor list \<Rightarrow> 'a tensor result" where
  "sum_div_len outputs =
     (case outputs of
        [] \<Rightarrow> Inl ZeroDivisionError
      | y # ys \<Rightarrow>
          and_then (sum_from (t_radd 0 y) ys)
            (\<lambda>total. Inr (t_map (\<lambda>v. v / of_nat (length outputs)) total)))"

text \<open>
  The network body as \<^verbatim>\<open>SEWResNet\<close> writes it three times (lines 259-275, 288-302 and
  311-325): stem, four stacks, pooling, classifier. The network is returned with its nodes
  advanced.
\<close>

definition SEWResNet_body ::
  "('a::{plus,times,minus,one}, 's) sew_net \<Rightarrow> 'a tensor \<Rightarrow> ('a tensor \<times> ('a, 's) sew_net) result" where
  "SEWResNet_body net x =
     (let x = conv1 net x;
          x = bn1 net x;
          (x, n1) = node_call (node1 net) x;
          net = net\<lparr>node1 := n1\<rparr>
      in and_then (getattr ''maxpool'' (maxpool net)) (\<lambda>mp.
         let x = mp x in
         and_then (Sequential_forward (layer1 net) x) (\<lambda>(x, l1).
         and_then (Sequential_forward (layer2 net) x) (\<lambda>(x, l2).
         and_then (Sequential_forward (layer3 net) x) (\<lambda>(x, l3).
         and_then (getattr ''layer4'' (layer4 net)) (\<lambda>l4.
         and_then (Sequential_forward l4 x) (\<lambda>(x, l4).
         let net = net\<lparr>layer1 := l1, layer2 := l2, layer3 := l3, layer4 := Some l4\<rparr>;
             x = avgpool net x in
         and_then (flatten1 x) (\<lambda>x.
         and_then (getattr ''fc'' (fc net)) (\<lambda>f.
         Inr (f x, net))))))))))"

text \<open>The body of \<^verbatim>\<open>SEWResNet19._forward_impl\<close> (lines 432-447 and 460-473).\<close>

definition SEWResNet19_body ::
  "('a::{plus,times,minus,one}, 's) sew_net \<Rightarrow> 'a tensor \<Rightarrow> ('a tensor \<times> ('a, 's) sew_net) result" where
  "SEWResNet19_body net x =
     (let x = conv1 net x;
          x = bn1 net x;
          (x, n1) = node_call (node1 net) x;
          net = net\<lparr>node1 := n1\<rparr>
      in and_then (Sequential_forward (layer1 net) x) (\<lambda>(x, l1).
         and_then (Sequential_forward (layer2 net) x) (\<lambda>(x, l2).
         and_then (Sequential_forward (layer3 net) x) (\<lambda>(x, l3).
         let net = net\<lparr>layer1 := l1, layer2 := l2, layer3 := l3\<rparr>;
             x = avgpool net x in
         and_then (flatten1 x) (\<lambda>x.
         and_then (getattr ''fc1'' (fc1 net)) (\<lambda>f1.
         let x = f1 x in
         and_then (getattr ''node2'' (node2 net)) (\<lambda>n2.
         let (x, n2) = node_call n2 x;
             net = net\<lparr>node2 := Some n2\<rparr> in
         and_then (getattr ''fc2'' (fc2 net)) (\<lambda>f2.
         Inr (f2 x, net)))))))))"

text \<open>The body of \<^verbatim>\<open>SEWResNetCifar._forward_impl\<close> (lines 603-617 and 629-642).\<close>

definition SEWResNetCifar_body ::
  "('a::{plus,times,minus,one}, 's) sew_net \<Rightarrow> 'a tensor \<Rightarrow> ('a tensor \<times> ('a, 's) sew_net) result" where
  "SEWResNetCifar_body net x =
     (let x = conv1 net x;
          x = bn1 net x;
          (x, n1) = node_call (node1 net) x;
          net = net\<lparr>node1 := n1\<rparr>
      in and_then (Sequential_forward (layer1 net) x) (\<lambda>(x, l1).
         and_then (Sequential_forward (layer2 net) x) (\<lambda>(x, l2).
         and_then (Sequential_forward (layer3 net) x) (\<lambda>(x, l3).
         let net = net\<lparr>layer1 := l1, layer2 := l2, layer3 := l3\<rparr>;
             x = avgpool net x in
         and_then (flatten1 x) (\<lambda>x.
         and_then (getattr ''fc'' (fc net)) (\<lambda>f.
         Inr (f x, net)))))))"

text \<open>
  What a forward call returns: a tensor, or the Python list of the per-timestep tensors.
\<close>

datatype 'a outcome = OTensor "'a tensor" | OList "'a tensor list"

text \<open>The loop \<^verbatim>\<open>for t in range(self.step)\<close> of the looped pass, over the timesteps left.\<close>

fun looped ::
  "(('a, 's) sew_net \<Rightarrow> 'a tensor \<Rightarrow> ('a tensor \<times> ('a, 's) sew_net) result)
     \<Rightarrow> ('a, 's) sew_net \<Rightarrow> 'a tensor \<Rightarrow> nat list \<Rightarrow> ('a tensor list \<times> ('a, 's) sew_net) result" where
  "looped body net inputs [] = Inr ([], net)"
| "looped body net inputs (t # ts) =
     and_then (t_index inputs t) (\<lambda>x.
     and_then (body net x) (\<lambda>(x, net).
     and_then (looped body net inputs ts) (\<lambda>(outputs, net). Inr (x # outputs, net))))"

text \<open>
  \<^verbatim>\<open>_forward_impl\<close>. The three classes have the same text around their own body (lines
  252-306, 425-477, 596-646), so the body is a parameter here and the three methods are
  its instances.
\<close>

definition forward_impl ::
  "(('a::field, 's) sew_net \<Rightarrow> 'a tensor \<Rightarrow> ('a tensor \<times> ('a, 's) sew_net) result)
     \<Rightarrow> ('a, 's) sew_net \<Rightarrow> 'a tensor \<Rightarrow> ('a outcome \<times> ('a, 's) sew_net) result" where
  "forward_impl body net inputs =
     (let inputs = encoder net inputs;
          net = reset net
      in if layer_by_layer net
         then and_then (body net inputs) (\<lambda>(x, net).
              and_then (rearrange_tb x (step net)) (\<lambda>x.
              if sum_output net
              then and_then (t_mean0 x) (\<lambda>x. Inr (OTensor x, net))
              else Inr (OTensor x, net)))
         else and_then (looped body net inputs [0..<step net]) (\<lambda>(outputs, net).
              if \<not> sum_output net then Inr (OList outputs, net)
              else and_then (sum_div_len outputs) (\<lambda>x. Inr (OTensor x, net))))"

definition SEWResNet_forward_impl ::
  "('a::field, 's) sew_net \<Rightarrow> 'a tensor \<Rightarrow> ('a outcome \<times> ('a, 's) sew_net) result" where
  "SEWResNet_forward_impl net inputs = forward_impl SEWResNet_body net inputs"

definition SEWResNet19_forward_impl ::
  "('a::field, 's) sew_net \<Rightarrow> 'a tensor \<Rightarrow> ('a outcome \<times> ('a, 's) sew_net) result" where
  "SEWResNet19_forward_impl net inputs = forward_impl SEWResNet19_body net inputs"

definition SEWResNetCifar_forward_impl ::
  "('a::field, 's) sew_net \<Rightarrow> 'a tensor \<Rightarrow> ('a outcome \<times> ('a, 's) sew_net) result" where
  "SEWResNetCifar_forward_impl net inputs = forward_impl SEWResNetCifar_body net inputs"

text \<open>
  \<^verbatim>\<open>_forward_once\<close>. The three classes have the same text (lines 308-326, 479-497,
  648-666): the body of \<^verbatim>\<open>SEWResNet\<close>, with \<^verbatim>\<open>maxpool\<close>, \<^verbatim>\<open>layer4\<close> and \<^verbatim>\<open>fc\<close>,
  also in the two classes whose constructors do not set all of these.
\<close>

definition SEWResNet_forward_once ::
  "('a::{plus,times,minus,one}, 's) sew_net \<Rightarrow> 'a tensor \<Rightarrow> ('a tensor \<times> ('a, 's) sew_net) result" where
  "SEWResNet_forward_once net x = SEWResNet_body net x"

definition SEWResNet19_forward_once ::
  "('a::{plus,times,minus,one}, 's) sew_net \<Rightarrow> 'a tensor \<Rightarrow> ('a tensor \<times> ('a, 's) sew_net) result" where
  "SEWResNet19_forward_once net x = SEWResNet_body net x"

definition SEWResNetCifar_forward_once ::
  "('a::{plus,times,minus,one}, 's) sew_net \<Rightarrow> 'a tensor \<Rightarrow> ('a tensor \<times> ('a, 's) sew_net) result" where
  "SEWResNetCifar_forward_once net x = SEWResNet_body net x"

text \<open>\<^verbatim>\<open>forward\<close>, lines 327-329, 498-500 and 667-669.\<close>

definition SEWResNet_forward ::
  "('a::field, 's) sew_net \<Rightarrow> 'a tensor \<Rightarrow> ('a outcome \<times> ('a, 's) sew_net) result" where
  "SEWResNet_forward net x =
     (if once net
      then and_then (SEWResNet_forward_once net x) (\<lambda>(y, net). Inr (OTensor y, net))
      else SEWResNet_forward_impl net x)"

definition SEWResNet19_forward ::
  "('a::field, 's) sew_net \<Rightarrow> 'a tensor \<Rightarrow> ('a outcome \<times> ('a, 's) sew_net) result" where
  "SEWResNet19_forward net x =
     (if once net
      then and_then (SEWResNet19_forward_once net x) (\<lambda>(y, net). Inr (OTensor y, net))
      else SEWResNet19_forward_impl net x)"

definition SEWResNetCifar_forward ::
  "('a::field, 's) sew_net \<Rightarrow> 'a tensor \<Rightarrow> ('a outcome \<times> ('a, 's) sew_net) result" where
  "SEWResNetCifar_forward net x =
     (if once net
      then and_then (SEWResNetCifar_forward_once net x) (\<lambda>(y, net). Inr (OTensor y, net))
      else SEWResNetCifar_forward_impl net x)"

section \<open>Factory functions\<close>

text \<open>
  The call \<^verbatim>\<open>SEWResNet(block, layers, cnf=cnf, **kwargs)\<close> and its two siblings: a
  keyword that names a parameter of the constructor is bound to it, an absent one takes the
  default of the signature (lines 158-160).
\<close>

definition SEWResNet_call ::
  "'a externals \<Rightarrow> block_cls \<Rightarrow> nat list \<Rightarrow> string option \<Rightarrow> ('a, 's) kwargs
     \<Rightarrow> ('a, 's) sew_net result" where
  "SEWResNet_call env block layers cnf kw =
     SEWResNet_init env block layers (or_default 1000 (kw_num_classes kw)) (or_default 8 (kw_step kw))
       (or_default ''direct'' (kw_encode_type kw)) (or_default 1 (kw_groups kw))
       (or_default 64 (kw_width_per_group kw)) (kw_replace_stride_with_dilation kw)
       (kw_norm_layer kw) cnf kw"

definition SEWResNet19_call ::
  "'a externals \<Rightarrow> block_cls \<Rightarrow> nat list \<Rightarrow> string option \<Rightarrow> ('a, 's) kwargs
     \<Rightarrow> ('a, 's) sew_net result" where
  "SEWResNet19_call env block layers cnf kw =
     SEWResNet19_init env block layers (or_default 1000 (kw_num_classes kw)) (or_default 8 (kw_step kw))
       (or_default ''direct'' (kw_encode_type kw)) (or_default 1 (kw_groups kw))
       (or_default 64 (kw_width_per_group kw)) (kw_replace_stride_with_dilation kw)
       (kw_norm_layer kw) cnf kw"

definition SEWResNetCifar_call ::
  "'a externals \<Rightarrow> block_cls \<Rightarrow> nat list \<Rightarrow> string option \<Rightarrow> ('a, 's) kwargs
     \<Rightarrow> ('a, 's) sew_net result" where
  "SEWResNetCifar_call env block layers cnf kw =
     SEWResNetCifar_init env block layers (or_default 1000 (kw_num_classes kw))
       (or_default 8 (kw_step kw)) (or_default ''direct'' (kw_encode_type kw))
       (or_default 1 (kw_groups kw)) (or_default 64 (kw_width_per_group kw))
       (kw_replace_stride_with_dilation kw) (kw_norm_layer kw) cnf kw"

text \<open>
  \<^verbatim>\<open>model_urls\<close> (lines 17-27) and \<^verbatim>\<open>_sew_resnet\<close> (lines 672-678). Fetching and
  loading a checkpoint is external: \<open>load\<close> stands for
  \<^verbatim>\<open>load_state_dict_from_url\<close> followed by \<^verbatim>\<open>load_state_dict\<close>, given the URL and the
  progress flag.
\<close>

definition model_urls :: "(string \<times> string) list" where
  "model_urls =
     [(''resnet18'', ''https://download.pytorch.org/models/resnet18-f37072fd.pth''),
      (''resnet34'', ''https://download.pytorch.org/models/resnet34-b627a593.pth''),
      (''resnet50'', ''https://download.pytorch.org/models/resnet50-0676ba61.pth''),
      (''resnet101'', ''https://download.pytorch.org/models/resnet101-63fe2227.pth''),
      (''resnet152'', ''https://download.pytorch.org/models/resnet152-394f9c45.pth''),
      (''resnext50_32x4d'', ''https://download.pytorch.org/models/resnext50_32x4d-7cdf4587.pth''),
      (''resnext101_32x8d'', ''https://download.pytorch.org/models/resnext101_32x8d-8ba56ff5.pth''),
      (''wide_resnet50_2'', ''https://download.pytorch.org/models/wide_resnet50_2-95faca4d.pth''),
      (''wide_resnet101_2'', ''https://download.pytorch.org/models/wide_resnet101_2-32ee1156.pth'')]"

type_synonym ('a, 's) loader =
  "string \<Rightarrow> bool \<Rightarrow> ('a, 's) sew_net \<Rightarrow> ('a, 's) sew_net result"

definition sew_resnet_helper ::
  "('a, 's) loader \<Rightarrow> 'a externals \<Rightarrow> string \<Rightarrow> block_cls \<Rightarrow> nat list \<Rightarrow> bool \<Rightarrow> bool
     \<Rightarrow> string option \<Rightarrow> ('a, 's) kwargs \<Rightarrow> ('a, 's) sew_net result" where
  "sew_resnet_helper load env arch block layers pretrained progress cnf kw =
     and_then (SEWResNet_call env block layers cnf kw) (\<lambda>model.
       if pretrained
       then (case map_of model_urls arch of
               None \<Rightarrow> Inl (KeyError arch)
             | Some url \<Rightarrow> load url progress model)
       else Inr model)"

text \<open>The factory functions, lines 680-988, in the order of the source.\<close>

definition sew_resnet19 ::
  "'a externals \<Rightarrow> bool \<Rightarrow> bool \<Rightarrow> string option \<Rightarrow> ('a, 's) kwargs \<Rightarrow> ('a, 's) sew_net result" where
  "sew_resnet19 env pretrained progress cnf kw = SEWResNet19_call env BasicBlock [3, 3, 2] cnf kw"

definition sew_resnet18 ::
  "('a, 's) loader \<Rightarrow> 'a externals \<Rightarrow> bool \<Rightarrow> bool \<Rightarrow> string option \<Rightarrow> ('a, 's) kwargs
     \<Rightarrow> ('a, 's) sew_net result" where
  "sew_resnet18 load env pretrained progress cnf kw =
     sew_resnet_helper load env ''resnet18'' BasicBlock [2, 2, 2, 2] pretrained progress cnf kw"

definition sew_resnet20 ::
  "'a externals \<Rightarrow> bool \<Rightarrow> bool \<Rightarrow> string option \<Rightarrow> ('a, 's) kwargs \<Rightarrow> ('a, 's) sew_net result" where
  "sew_resnet20 env pretrained progress cnf kw = SEWResNetCifar_call env BasicBlock [3, 3, 3] cnf kw"

definition sew_resnet32 ::
  "'a externals \<Rightarrow> bool \<Rightarrow> bool \<Rightarrow> string option \<Rightarrow> ('a, 's) kwargs \<Rightarrow> ('a, 's) sew_net result" where
  "sew_resnet32 env pretrained progress cnf kw = SEWResNetCifar_call env BasicBlock [5, 5, 5] cnf kw"

definition sew_resnet44 ::
  "'a externals \<Rightarrow> bool \<Rightarrow> bool \<Rightarrow> string option \<Rightarrow> ('a, 's) kwargs \<Rightarrow> ('a, 's) sew_net result" where
  "sew_resnet44 env pretrained progress cnf kw = SEWResNetCifar_call env BasicBlock [7, 7, 7] cnf kw"

definition sew_resnet56 ::
  "'a externals \<Rightarrow> bool \<Rightarrow> bool \<Rightarrow> string option \<Rightarrow> ('a, 's) kwargs \<Rightarrow> ('a, 's) sew_net result" where
  "sew_resnet56 env pretrained progress cnf kw = SEWResNetCifar_call env BasicBlock [9, 9, 9] cnf kw"

definition sew_resnet34 ::
  "('a, 's) loader \<Rightarrow> 'a externals \<Rightarrow> bool \<Rightarrow> bool \<Rightarrow> string option \<Rightarrow> ('a, 's) kwargs
     \<Rightarrow> ('a, 's) sew_net result" where
  "sew_resnet34 load env pretrained progress cnf kw =
     sew_resnet_helper load env ''resnet34'' BasicBlock [3, 4, 6, 3] pretrained progress cnf kw"

definition sew_resnet50 ::
  "('a, 's) loader \<Rightarrow> 'a externals \<Rightarrow> bool \<Rightarrow> bool \<Rightarrow> string option \<Rightarrow> ('a, 's) kwargs
     \<Rightarrow> ('a, 's) sew_net result" where
  "sew_resnet50 load env pretrained progress cnf kw =
     sew_resnet_helper load env ''resnet50'' Bottleneck [3, 4, 6, 3] pretrained progress cnf kw"

definition sew_resnet101 ::
  "('a, 's) loader \<Rightarrow> 'a externals \<Rightarrow> bool \<Rightarrow> bool \<Rightarrow> string option \<Rightarrow> ('a, 's) kwargs
     \<Rightarrow> ('a, 's) sew_net result" where
  "sew_resnet101 load env pretrained progress cnf kw =
     sew_resnet_helper load env ''resnet101'' Bottleneck [3, 4, 23, 3] pretrained progress cnf kw"

definition sew_resnet152 ::
  "('a, 's) loader \<Rightarrow> 'a externals \<Rightarrow> bool \<Rightarrow> bool \<Rightarrow> string option \<Rightarrow> ('a, 's) kwargs
     \<Rightarrow> ('a, 's) sew_net result" where
  "sew_resnet152 load env pretrained progress cnf kw =
     sew_resnet_helper load env ''resnet152'' Bottleneck [3, 8, 36, 3] pretrained progress cnf kw"

definition sew_resnext50_32x4d ::
  "('a, 's) loader \<Rightarrow> 'a externals \<Rightarrow> bool \<Rightarrow> bool \<Rightarrow> string option \<Rightarrow> ('a, 's) kwargs
     \<Rightarrow> ('a, 's) sew_net result" where
  "sew_resnext50_32x4d load env pretrained progress cnf kw =
     (let kw = kw\<lparr>kw_groups := Some 32\<rparr>;
          kw = kw\<lparr>kw_width_per_group := Some 4\<rparr>
      in sew_resnet_helper load env ''resnext50_32x4d'' Bottleneck [3, 4, 6, 3] pretrained
           progress cnf kw)"

definition sew_resnext34_32x4d ::
  "('a, 's) loader \<Rightarrow> 'a externals \<Rightarrow> bool \<Rightarrow> bool \<Rightarrow> string option \<Rightarrow> ('a, 's) kwargs
     \<Rightarrow> ('a, 's) sew_net result" where
  "sew_resnext34_32x4d load env pretrained progress cnf kw =
     (let kw = kw\<lparr>kw_groups := Some 32\<rparr>;
          kw = kw\<lparr>kw_width_per_group := Some 4\<rparr>
      in sew_resnet_helper load env ''resnext34_32x4d'' BasicBlock [3, 4, 6, 3] pretrained
           progress cnf kw)"

text \<open>
  \<^verbatim>\<open>sew_resnext101_32x8d\<close> (lines 919-938) has a parameter \<^verbatim>\<open>node\<close> of its own and
  passes it on as a seventh positional argument of \<^verbatim>\<open>_sew_resnet\<close>, which has six
  positional parameters; Python rejects the call.
\<close>

definition sew_resnext101_32x8d ::
  "('a, 's) loader \<Rightarrow> 'a externals \<Rightarrow> bool \<Rightarrow> bool \<Rightarrow> string option \<Rightarrow> ('a, 's) node_cls option
     \<Rightarrow> ('a, 's) kwargs \<Rightarrow> ('a, 's) sew_net result" where
  "sew_resnext101_32x8d load env pretrained progress cnf node kw =
     (let kw = kw\<lparr>kw_groups := Some 32\<rparr>;
          kw = kw\<lparr>kw_width_per_group := Some 8\<rparr>
      in Inl (TypeError ''_sew_resnet() takes 6 positional arguments but 7 were given''))"

definition sew_wide_resnet50_2 ::
  "('a, 's) loader \<Rightarrow> 'a externals \<Rightarrow> bool \<Rightarrow> bool \<Rightarrow> string option \<Rightarrow> ('a, 's) kwargs
     \<Rightarrow> ('a, 's) sew_net result" where
  "sew_wide_resnet50_2 load env pretrained progress cnf kw =
     (let kw = kw\<lparr>kw_width_per_group := Some (64 * 2)\<rparr>
      in sew_resnet_helper load env ''wide_resnet50_2'' Bottleneck [3, 4, 6, 3] pretrained
           progress cnf kw)"

definition sew_wide_resnet101_2 ::
  "('a, 's) loader \<Rightarrow> 'a externals \<Rightarrow> bool \<Rightarrow> bool \<Rightarrow> string option \<Rightarrow> ('a, 's) kwargs
     \<Rightarrow> ('a, 's) sew_net result" where
  "sew_wide_resnet101_2 load env pretrained progress cnf kw =
     (let kw = kw\<lparr>kw_width_per_group := Some (64 * 2)\<rparr>
      in sew_resnet_helper load env ''wide_resnet101_2'' Bottleneck [3, 4, 23, 3] pretrained
           progress cnf kw)"

section \<open>Notions used in the statements\<close>


definition slices :: "'a tensor \<Rightarrow> 'a tensor list" where
  "slices x =
     (case shape x of
        [] \<Rightarrow> []
      | n # ds \<Rightarrow>
          map (\<lambda>t. Tensor ds (take (prod_list ds) (drop (t * prod_list ds) (elems x)))) [0..<n])"


text \<open>
  The three network classes, each as its \<^verbatim>\<open>forward\<close> method together with the body of its
  \<^verbatim>\<open>_forward_impl\<close>.
\<close>

definition variants ::
  "((('a::field, 's) sew_net \<Rightarrow> 'a tensor \<Rightarrow> ('a outcome \<times> ('a, 's) sew_net) result)
     \<times> (('a, 's) sew_net \<Rightarrow> 'a tensor \<Rightarrow> ('a tensor \<times> ('a, 's) sew_net) result)) set" where
  "variants =
     {(SEWResNet_forward, SEWResNet_body),
      (SEWResNet19_forward, SEWResNet19_body),
      (SEWResNetCifar_forward, SEWResNetCifar_body)}"


section \<open>The two execution strategies side by side\<close>


definition flat :: "'a tensor list \<Rightarrow> 'a tensor" where
  "flat xs =
     (case xs of
        [] \<Rightarrow> Tensor [0] []
      | x # _ \<Rightarrow> Tensor ((length xs * hd (shape x)) # tl (shape x)) (concat (map elems xs)))"

text \<open>
  The input of the claim on the two execution strategies: one tensor repeated for each of
  \<open>T\<close> timesteps. For the looped pass the copies are stacked along a new leading
  dimension (\<open>repeated\<close>); for the flattened pass they are put together along the batch
  dimension, which is \<open>flat (replicate T x)\<close>.
\<close>

definition repeated :: "nat \<Rightarrow> 'a tensor \<Rightarrow> 'a tensor" where
  "repeated T x = Tensor (T # shape x) (concat (replicate T (elems x)))"

text \<open>
  Running one component timestep by timestep, as the looped pass does: a stateless step that
  may raise (\<open>traverse\<close>), a node (\<open>node_seq\<close>), and any component that returns its
  successor with its result (\<open>iter\<close>).
\<close>

fun traverse :: "('x \<Rightarrow> 'y result) \<Rightarrow> 'x list \<Rightarrow> 'y list result" where
  "traverse f [] = Inr []"
| "traverse f (x # xs) = and_then (f x) (\<lambda>y. and_then (traverse f xs) (\<lambda>ys. Inr (y # ys)))"

fun node_seq :: "('a, 's) node \<Rightarrow> 'a tensor list \<Rightarrow> 'a tensor list \<times> ('a, 's) node" where
  "node_seq n [] = ([], n)"
| "node_seq n (x # xs) =
     (let (y, n1) = node_call n x; (ys, n') = node_seq n1 xs in (y # ys, n'))"









text \<open>
  The looped pass regrouped by component: each component runs over all timesteps before
  the next one starts. The names follow the forward passes they regroup.
\<close>

definition downsample_seq ::
  "('a layer \<times> ('a, 's) node) option \<Rightarrow> 'a tensor list
     \<Rightarrow> 'a tensor list \<times> ('a layer \<times> ('a, 's) node) option" where
  "downsample_seq p xs =
     (case p of
        None \<Rightarrow> (xs, None)
      | Some (d, sn) \<Rightarrow> (let (ids, sn') = node_seq sn (map d xs) in (ids, Some (d, sn'))))"

definition BasicBlock_seq ::
  "('a::{plus,times,minus,one}, 's) basic_block \<Rightarrow> 'a tensor list
     \<Rightarrow> ('a tensor list \<times> ('a, 's) basic_block) result" where
  "BasicBlock_seq b xs =
     (let (o1, n1) = node_seq (bb_node1 b) (map (\<lambda>x. bb_bn1 b (bb_conv1 b x)) xs);
          (o2, n2) = node_seq (bb_node2 b) (map (\<lambda>x. bb_bn2 b (bb_conv2 b x)) o1);
          (ids, ds) = downsample_seq (bb_downsample b) xs
      in and_then (traverse (\<lambda>(i, out). sew_function i out (bb_cnf b)) (zip ids o2))
           (\<lambda>ys. Inr (ys, b\<lparr>bb_node1 := n1, bb_node2 := n2, bb_downsample := ds\<rparr>)))"

definition Bottleneck_seq ::
  "('a::{plus,times,minus,one}, 's) bottleneck \<Rightarrow> 'a tensor list
     \<Rightarrow> ('a tensor list \<times> ('a, 's) bottleneck) result" where
  "Bottleneck_seq b xs =
     (let (o1, n1) = node_seq (bk_node1 b) (map (\<lambda>x. bk_bn1 b (bk_conv1 b x)) xs);
          (o2, n2) = node_seq (bk_node2 b) (map (\<lambda>x. bk_bn2 b (bk_conv2 b x)) o1);
          (o3, n3) = node_seq (bk_node3 b) (map (\<lambda>x. bk_bn3 b (bk_conv3 b x)) o2);
          (ids, ds) = downsample_seq (bk_downsample b) xs
      in and_then (traverse (\<lambda>(out, i). sew_function out i (bk_cnf b)) (zip o3 ids))
           (\<lambda>ys. Inr (ys, b\<lparr>bk_node1 := n1, bk_node2 := n2, bk_node3 := n3,
                                bk_downsample := ds\<rparr>)))"

fun block_seq ::
  "('a::{plus,times,minus,one}, 's) block \<Rightarrow> 'a tensor list
     \<Rightarrow> ('a tensor list \<times> ('a, 's) block) result" where
  "block_seq (BasicBlockObj b) xs =
     and_then (BasicBlock_seq b xs) (\<lambda>(ys, b'). Inr (ys, BasicBlockObj b'))"
| "block_seq (BottleneckObj b) xs =
     and_then (Bottleneck_seq b xs) (\<lambda>(ys, b'). Inr (ys, BottleneckObj b'))"

fun Sequential_seq ::
  "('a::{plus,times,minus,one}, 's) block list \<Rightarrow> 'a tensor list
     \<Rightarrow> ('a tensor list \<times> ('a, 's) block list) result" where
  "Sequential_seq [] xs = Inr (xs, [])"
| "Sequential_seq (b # bs) xs =
     and_then (block_seq b xs) (\<lambda>(ys, b').
     and_then (Sequential_seq bs ys) (\<lambda>(zs, bs'). Inr (zs, b' # bs')))"

definition apply_attr :: "string \<Rightarrow> 'a layer option \<Rightarrow> 'a tensor \<Rightarrow> 'a tensor result" where
  "apply_attr name a x = and_then (getattr name a) (\<lambda>f. Inr (f x))"

definition stack_attr_seq ::
  "string \<Rightarrow> ('a::{plus,times,minus,one}, 's) block list option \<Rightarrow> 'a tensor list
     \<Rightarrow> ('a tensor list \<times> ('a, 's) block list option) result" where
  "stack_attr_seq name a xs =
     (if xs = [] then Inr ([], a)
      else and_then (getattr name a) (\<lambda>bs.
           and_then (Sequential_seq bs xs) (\<lambda>(ys, bs'). Inr (ys, Some bs'))))"

definition node_attr_seq ::
  "string \<Rightarrow> ('a, 's) node option \<Rightarrow> 'a tensor list
     \<Rightarrow> ('a tensor list \<times> ('a, 's) node option) result" where
  "node_attr_seq name a xs =
     (if xs = [] then Inr ([], a)
      else and_then (getattr name a) (\<lambda>n.
           let (ys, n') = node_seq n xs in Inr (ys, Some n')))"

definition SEWResNet_body_seq ::
  "('a::{plus,times,minus,one}, 's) sew_net \<Rightarrow> 'a tensor list
     \<Rightarrow> ('a tensor list \<times> ('a, 's) sew_net) result" where
  "SEWResNet_body_seq net xs =
     (let (o1, n1) = node_seq (node1 net) (map (\<lambda>x. bn1 net (conv1 net x)) xs)
      in and_then (traverse (apply_attr ''maxpool'' (maxpool net)) o1) (\<lambda>o2.
         and_then (Sequential_seq (layer1 net) o2) (\<lambda>(o3, l1).
         and_then (Sequential_seq (layer2 net) o3) (\<lambda>(o4, l2).
         and_then (Sequential_seq (layer3 net) o4) (\<lambda>(o5, l3).
         and_then (stack_attr_seq ''layer4'' (layer4 net) o5) (\<lambda>(o6, l4).
         and_then (traverse (\<lambda>x. flatten1 (avgpool net x)) o6) (\<lambda>o7.
         and_then (traverse (apply_attr ''fc'' (fc net)) o7) (\<lambda>ys.
         Inr (ys, net\<lparr>node1 := n1, layer1 := l1, layer2 := l2, layer3 := l3,
                       layer4 := l4\<rparr>)))))))))"

definition SEWResNet19_body_seq ::
  "('a::{plus,times,minus,one}, 's) sew_net \<Rightarrow> 'a tensor list
     \<Rightarrow> ('a tensor list \<times> ('a, 's) sew_net) result" where
  "SEWResNet19_body_seq net xs =
     (let (o1, n1) = node_seq (node1 net) (map (\<lambda>x. bn1 net (conv1 net x)) xs)
      in and_then (Sequential_seq (layer1 net) o1) (\<lambda>(o3, l1).
         and_then (Sequential_seq (layer2 net) o3) (\<lambda>(o4, l2).
         and_then (Sequential_seq (layer3 net) o4) (\<lambda>(o5, l3).
         and_then (traverse (\<lambda>x. flatten1 (avgpool net x)) o5) (\<lambda>o6.
         and_then (traverse (apply_attr ''fc1'' (fc1 net)) o6) (\<lambda>o7.
         and_then (node_attr_seq ''node2'' (node2 net) o7) (\<lambda>(o8, n2).
         and_then (traverse (apply_attr ''fc2'' (fc2 net)) o8) (\<lambda>ys.
         Inr (ys, net\<lparr>node1 := n1, layer1 := l1, layer2 := l2, layer3 := l3,
                       node2 := n2\<rparr>)))))))))"

definition SEWResNetCifar_body_seq ::
  "('a::{plus,times,minus,one}, 's) sew_net \<Rightarrow> 'a tensor list
     \<Rightarrow> ('a tensor list \<times> ('a, 's) sew_net) result" where
  "SEWResNetCifar_body_seq net xs =
     (let (o1, n1) = node_seq (node1 net) (map (\<lambda>x. bn1 net (conv1 net x)) xs)
      in and_then (Sequential_seq (layer1 net) o1) (\<lambda>(o3, l1).
         and_then (Sequential_seq (layer2 net) o3) (\<lambda>(o4, l2).
         and_then (Sequential_seq (layer3 net) o4) (\<lambda>(o5, l3).
         and_then (traverse (\<lambda>x. flatten1 (avgpool net x)) o5) (\<lambda>o6.
         and_then (traverse (apply_attr ''fc'' (fc net)) o6) (\<lambda>ys.
         Inr (ys, net\<lparr>node1 := n1, layer1 := l1, layer2 := l2, layer3 := l3\<rparr>)))))))"

section \<open>A small concrete configuration\<close>

text \<open>
  One concrete choice of the external parts, used to evaluate the definitions above at
  explicit inputs: every library layer is the identity map, the encoder repeats its input
  once per timestep (along a new leading dimension, or inside the batch dimension for the
  flattened pass), and a node multiplies its input by the number of timesteps it has seen
  since its last reset.
\<close>

definition repeat_encoder :: "nat \<Rightarrow> string \<Rightarrow> bool \<Rightarrow> 'a layer" where
  "repeat_encoder n encode_type lbl x =
     (if lbl
      then Tensor (case shape x of [] \<Rightarrow> [] | b # ds \<Rightarrow> (n * b) # ds)
             (concat (replicate n (elems x)))
      else Tensor (n # shape x) (concat (replicate n (elems x))))"

definition plain_env :: "rat externals" where
  "plain_env =
     \<lparr>Conv2d = (\<lambda>i o' k s p g d x. x),
      BatchNorm2d = (\<lambda>n x. x),
      MaxPool2d = (\<lambda>k s p x. x),
      AdaptiveAvgPool2d = (\<lambda>sz x. x),
      Linear = (\<lambda>i o' x. x),
      is_dvs_data = (\<lambda>ds. ds = ''dvsg''),
      Encoder = repeat_encoder\<rparr>"

definition counting_node :: "(rat, nat) node_cls" where
  "counting_node = \<lparr>rest = 0, fire = (\<lambda>s x. (t_map (\<lambda>v. v * of_nat (Suc s)) x, Suc s))\<rparr>"

definition plain_kwargs :: "(rat, nat) kwargs" where
  "plain_kwargs =
     \<lparr>kw_num_classes = Some 10, kw_step = Some 2, kw_encode_type = None, kw_groups = None,
      kw_width_per_group = None, kw_replace_stride_with_dilation = None, kw_norm_layer = None,
      kw_node_type = Some counting_node, kw_dataset = Some ''cifar10'', kw_once = None,
      kw_sum_output = None, kw_layer_by_layer = None\<rparr>"

definition no_loader :: "(rat, nat) loader" where
  "no_loader url progress model = Inr model"

text \<open>
  A \<^verbatim>\<open>SEWResNet\<close> of one BasicBlock per stack over this configuration, with two
  timesteps, the ADD mode and the given execution-mode and aggregation flags.
\<close>

definition small_net :: "bool \<Rightarrow> bool \<Rightarrow> (rat, nat) sew_net result" where
  "small_net lbl agg =
     SEWResNet_init plain_env BasicBlock [1, 1, 1, 1] 10 2 ''direct'' 1 64 None None (Some ''ADD'')
       (plain_kwargs\<lparr>kw_layer_by_layer := Some lbl, kw_sum_output := Some agg\<rparr>)"

text \<open>
  A node class for the flattened pass built from a node class for the looped pass: it splits
  its input, which holds \<open>T\<close> timesteps along the batch dimension, into the \<open>T\<close> timesteps,
  runs the given dynamics over them in order, and puts the results back together. With it,
  the same network for the flattened pass.
\<close>

definition chunks :: "nat \<Rightarrow> 'a tensor \<Rightarrow> 'a tensor list" where
  "chunks T x = slices (Tensor (T # (hd (shape x) div T) # tl (shape x)) (elems x))"

definition unrolled :: "nat \<Rightarrow> ('a, 's) node_cls \<Rightarrow> ('a, 's) node_cls" where
  "unrolled T cls =
     \<lparr>rest = rest cls,
      fire = (\<lambda>s x. let (ys, n) = node_seq \<lparr>mem = s, mem_init = rest cls, dynamics = fire cls\<rparr>
                                   (chunks T x)
                    in (flat ys, mem n))\<rparr>"

definition small_net_unrolled :: "(rat, nat) sew_net result" where
  "small_net_unrolled =
     SEWResNet_init plain_env BasicBlock [1, 1, 1, 1] 10 2 ''direct'' 1 64 None None (Some ''ADD'')
       (plain_kwargs\<lparr>kw_layer_by_layer := Some True, kw_sum_output := Some True,
                     kw_node_type := Some (unrolled 2 counting_node)\<rparr>)"

text \<open>
  Further configurations of the same small network, for given library layers, normalisation
  layer, execution mode and node class. \<open>mean_norm\<close> is a normalisation layer with batch
  statistics, as \<^verbatim>\<open>BatchNorm2d\<close> is in training mode: it divides by the mean over the
  batch it is given. \<open>column_env\<close> has a linear layer that returns its result with one
  more dimension. \<open>forward_of\<close> is construction followed by one forward call, keeping what
  the call returns.
\<close>

definition mean_norm :: "nat \<Rightarrow> rat layer" where
  "mean_norm n x =
     t_map (\<lambda>v. v / (sum_list (elems x) / of_nat (length (elems x)))) x"

definition column_env :: "rat externals" where
  "column_env = plain_env\<lparr>Linear := (\<lambda>i o' x. Tensor (shape x @ [1]) (elems x))\<rparr>"

definition demo_net ::
  "rat externals \<Rightarrow> (nat \<Rightarrow> rat layer) option \<Rightarrow> bool \<Rightarrow> (rat, nat) node_cls
     \<Rightarrow> (rat, nat) sew_net result" where
  "demo_net env norm_layer lbl node =
     SEWResNet_init env BasicBlock [1, 1, 1, 1] 10 2 ''direct'' 1 64 None norm_layer (Some ''ADD'')
       (plain_kwargs\<lparr>kw_layer_by_layer := Some lbl, kw_sum_output := Some True,
                     kw_node_type := Some node\<rparr>)"

definition forward_of :: "(rat, nat) sew_net result \<Rightarrow> rat tensor \<Rightarrow> rat outcome result" where
  "forward_of model x = and_then model (\<lambda>net. returned (SEWResNet_forward net x))"

section \<open>Properties of the combination function\<close>

lemma t_zip_same_shape:
  assumes "shape a = shape b" and "wf_tensor a" and "wf_tensor b"
  shows "\<exists>r. t_zip f a b = Inr r \<and> shape r = shape a \<and> wf_tensor r
            \<and> (\<forall>i<length (elems a). elems r ! i = f (elems a ! i) (elems b ! i))"
  using assms by (simp add: t_zip_def wf_tensor_def)

lemma t_rsub_shape [simp]: "shape (t_rsub c y) = shape y"
  by (simp add: t_rsub_def t_map_def)

lemma t_rsub_wf [simp]: "wf_tensor (t_rsub c y) = wf_tensor y"
  by (simp add: t_rsub_def t_map_def wf_tensor_def)

lemma t_rsub_nth: "i < length (elems y) \<Longrightarrow> elems (t_rsub c y) ! i = c - elems y ! i"
  by (simp add: t_rsub_def t_map_def)

text \<open>
  C1. For equal-shaped tensors \<open>a\<close> and \<open>b\<close>, \<open>sew_function\<close> returns a tensor of the same
  shape whose element at every position is \<open>a + b\<close> under ADD, \<open>a * b\<close> under AND and
  \<open>a * (1 - b)\<close> under IAND. The scalar type is any type with these operations, so no
  algebraic law is used.
\<close>

theorem sew_function_elementwise:
  fixes a b :: "'a::{plus,times,minus,one} tensor"
  assumes "shape a = shape b" and "wf_tensor a" and "wf_tensor b"
  shows "(\<exists>r. sew_function a b (Some ''ADD'') = Inr r \<and> shape r = shape a \<and> wf_tensor r
              \<and> (\<forall>i<length (elems a). elems r ! i = elems a ! i + elems b ! i))
       \<and> (\<exists>r. sew_function a b (Some ''AND'') = Inr r \<and> shape r = shape a \<and> wf_tensor r
              \<and> (\<forall>i<length (elems a). elems r ! i = elems a ! i * elems b ! i))
       \<and> (\<exists>r. sew_function a b (Some ''IAND'') = Inr r \<and> shape r = shape a \<and> wf_tensor r
              \<and> (\<forall>i<length (elems a). elems r ! i = elems a ! i * (1 - elems b ! i)))"
proof (intro conjI)
  show "\<exists>r. sew_function a b (Some ''ADD'') = Inr r \<and> shape r = shape a \<and> wf_tensor r
            \<and> (\<forall>i<length (elems a). elems r ! i = elems a ! i + elems b ! i)"
    using t_zip_same_shape [OF assms, of "(+)"] by (simp add: sew_function_def t_add_def)
  show "\<exists>r. sew_function a b (Some ''AND'') = Inr r \<and> shape r = shape a \<and> wf_tensor r
            \<and> (\<forall>i<length (elems a). elems r ! i = elems a ! i * elems b ! i)"
    using t_zip_same_shape [OF assms, of "(*)"] by (simp add: sew_function_def t_mul_def)
  have len: "length (elems a) = length (elems b)"
    using assms by (simp add: wf_tensor_def)
  have "shape a = shape (t_rsub 1 b)" and "wf_tensor (t_rsub 1 b)"
    using assms by simp_all
  from t_zip_same_shape [OF this(1) assms(2) this(2), of "(*)"]
  show "\<exists>r. sew_function a b (Some ''IAND'') = Inr r \<and> shape r = shape a \<and> wf_tensor r
            \<and> (\<forall>i<length (elems a). elems r ! i = elems a ! i * (1 - elems b ! i))"
    using len by (auto simp: sew_function_def t_mul_def t_rsub_nth)
qed

theorem sew_function_elementwise_witness:
  "shape (Tensor [2] [3, 2::int]) = shape (Tensor [2] [1, 5::int])
 \<and> wf_tensor (Tensor [2] [3, 2::int]) \<and> wf_tensor (Tensor [2] [1, 5::int])
 \<and> sew_function (Tensor [2] [3, 2::int]) (Tensor [2] [1, 5]) (Some ''ADD'') = Inr (Tensor [2] [4, 7])
 \<and> sew_function (Tensor [2] [3, 2::int]) (Tensor [2] [1, 5]) (Some ''AND'') = Inr (Tensor [2] [3, 10])
 \<and> sew_function (Tensor [2] [3, 2::int]) (Tensor [2] [1, 5]) (Some ''IAND'') = Inr (Tensor [2] [0, - 8])"
proof -
  have h: "shape (Tensor [2] [3, 2::int]) = shape (Tensor [2] [1, 5::int])"
    "wf_tensor (Tensor [2] [3, 2::int])" "wf_tensor (Tensor [2] [1, 5::int])"
    by (simp_all add: wf_tensor_def)
  from sew_function_elementwise [OF h] h show ?thesis
    by (simp add: sew_function_def t_add_def t_mul_def t_zip_def t_rsub_def t_map_def)
qed

section \<open>Properties of the blocks\<close>

text \<open>
  C2. For every mode that is not ADD, AND or IAND (including the default \<^verbatim>\<open>None\<close>) and
  every pair of tensors, \<open>sew_function\<close> raises \<open>NotImplementedError\<close> and returns no value;
  its two callers, the block forward passes, do not catch it and raise it too.
\<close>

theorem sew_function_unrecognized_mode:
  fixes x y :: "'a::{plus,times,minus,one} tensor"
  assumes "cnf \<notin> {Some ''ADD'', Some ''AND'', Some ''IAND''}"
  shows "sew_function x y cnf = Inl (NotImplementedError '''')
       \<and> BasicBlock_forward (b\<lparr>bb_cnf := cnf\<rparr>) x = Inl (NotImplementedError '''')
       \<and> Bottleneck_forward (k\<lparr>bk_cnf := cnf\<rparr>) x = Inl (NotImplementedError '''')"
proof -
  have s: "sew_function u v cnf = Inl (NotImplementedError '''')" for u v :: "'a tensor"
    using assms by (simp add: sew_function_def)
  show ?thesis
    by (simp add: s BasicBlock_forward_def Bottleneck_forward_def and_then_def Let_def split_def)
qed

theorem sew_function_unrecognized_mode_witness:
  "Some ''bogus'' \<notin> {Some ''ADD'', Some ''AND'', Some ''IAND''}
 \<and> None \<notin> {Some ''ADD'', Some ''AND'', Some ''IAND''}
 \<and> sew_function (Tensor [1] [2::int]) (Tensor [1] [3]) (Some ''bogus'')
     = Inl (NotImplementedError '''')
 \<and> sew_function (Tensor [1] [2::int]) (Tensor [1] [3]) None = Inl (NotImplementedError '''')"
  using sew_function_unrecognized_mode [of "Some ''bogus''" "Tensor [1] [2::int]" "Tensor [1] [3]"]
    sew_function_unrecognized_mode [of None "Tensor [1] [2::int]" "Tensor [1] [3]"]
  by blast

text \<open>
  C3. A BasicBlock merges as \<open>sew_function identity residual cnf\<close>, a Bottleneck as
  \<open>sew_function residual identity cnf\<close>. So under IAND, when the two paths give
  well-formed tensors of one shape, a BasicBlock returns the tensor of that shape whose
  element at every position is \<open>identity * (1 - residual)\<close>, and a Bottleneck the one
  whose element is \<open>residual * (1 - identity)\<close>; when the shapes differ the multiplication
  raises.
\<close>

theorem block_merge_argument_order:
  fixes b :: "('a::{plus,times,minus,one}, 's) basic_block" and k :: "('a, 's) bottleneck"
  shows "returned (BasicBlock_forward b x)
           = sew_function (identity_path (bb_downsample b) x) (BasicBlock_main_path b x) (bb_cnf b)
       \<and> returned (Bottleneck_forward k x)
           = sew_function (Bottleneck_main_path k x) (identity_path (bk_downsample k) x) (bk_cnf k)
       \<and> returned (BasicBlock_forward (b\<lparr>bb_cnf := Some ''IAND''\<rparr>) x)
           = t_mul (identity_path (bb_downsample b) x) (t_rsub 1 (BasicBlock_main_path b x))
       \<and> returned (Bottleneck_forward (k\<lparr>bk_cnf := Some ''IAND''\<rparr>) x)
           = t_mul (Bottleneck_main_path k x) (t_rsub 1 (identity_path (bk_downsample k) x))
       \<and> (shape (identity_path (bb_downsample b) x) = shape (BasicBlock_main_path b x)
            \<and> wf_tensor (identity_path (bb_downsample b) x) \<and> wf_tensor (BasicBlock_main_path b x)
          \<longrightarrow> (\<exists>r. returned (BasicBlock_forward (b\<lparr>bb_cnf := Some ''IAND''\<rparr>) x) = Inr r
                 \<and> shape r = shape (BasicBlock_main_path b x) \<and> wf_tensor r
                 \<and> (\<forall>i<length (elems r). elems r ! i
                       = elems (identity_path (bb_downsample b) x) ! i
                           * (1 - elems (BasicBlock_main_path b x) ! i))))
       \<and> (shape (identity_path (bk_downsample k) x) = shape (Bottleneck_main_path k x)
            \<and> wf_tensor (identity_path (bk_downsample k) x) \<and> wf_tensor (Bottleneck_main_path k x)
          \<longrightarrow> (\<exists>r. returned (Bottleneck_forward (k\<lparr>bk_cnf := Some ''IAND''\<rparr>) x) = Inr r
                 \<and> shape r = shape (Bottleneck_main_path k x) \<and> wf_tensor r
                 \<and> (\<forall>i<length (elems r). elems r ! i
                       = elems (Bottleneck_main_path k x) ! i
                           * (1 - elems (identity_path (bk_downsample k) x) ! i))))"
proof -
  have r: "returned (and_then m (\<lambda>v. Inr (v, g v))) = m"
    for m :: "'a tensor result" and g :: "'a tensor \<Rightarrow> 'm"
    by (cases m) (simp_all add: returned_def and_then_def)
  have bb: "returned (BasicBlock_forward c x)
      = sew_function (identity_path (bb_downsample c) x) (BasicBlock_main_path c x) (bb_cnf c)"
    for c :: "('a, 's) basic_block"
    by (cases "bb_downsample c")
      (simp_all add: BasicBlock_forward_def BasicBlock_main_path_def identity_path_def
        Let_def split_def r)
  have bk: "returned (Bottleneck_forward c x)
      = sew_function (Bottleneck_main_path c x) (identity_path (bk_downsample c) x) (bk_cnf c)"
    for c :: "('a, 's) bottleneck"
    by (cases "bk_downsample c")
      (simp_all add: Bottleneck_forward_def Bottleneck_main_path_def identity_path_def
        Let_def split_def r)
  have m: "BasicBlock_main_path (b\<lparr>bb_cnf := Some ''IAND''\<rparr>) x = BasicBlock_main_path b x"
    "Bottleneck_main_path (k\<lparr>bk_cnf := Some ''IAND''\<rparr>) x = Bottleneck_main_path k x"
    by (simp_all add: BasicBlock_main_path_def Bottleneck_main_path_def)
  have ib: "returned (BasicBlock_forward (b\<lparr>bb_cnf := Some ''IAND''\<rparr>) x)
      = sew_function (identity_path (bb_downsample b) x) (BasicBlock_main_path b x) (Some ''IAND'')"
    using bb [of "b\<lparr>bb_cnf := Some ''IAND''\<rparr>"] m by simp
  have ik: "returned (Bottleneck_forward (k\<lparr>bk_cnf := Some ''IAND''\<rparr>) x)
      = sew_function (Bottleneck_main_path k x) (identity_path (bk_downsample k) x) (Some ''IAND'')"
    using bk [of "k\<lparr>bk_cnf := Some ''IAND''\<rparr>"] m by simp
  have eb: "\<exists>r. returned (BasicBlock_forward (b\<lparr>bb_cnf := Some ''IAND''\<rparr>) x) = Inr r
                 \<and> shape r = shape (BasicBlock_main_path b x) \<and> wf_tensor r
                 \<and> (\<forall>i<length (elems r). elems r ! i
                       = elems (identity_path (bb_downsample b) x) ! i
                           * (1 - elems (BasicBlock_main_path b x) ! i))"
    if "shape (identity_path (bb_downsample b) x) = shape (BasicBlock_main_path b x)
            \<and> wf_tensor (identity_path (bb_downsample b) x) \<and> wf_tensor (BasicBlock_main_path b x)"
    unfolding ib using that
    by (simp add: sew_function_def t_mul_def t_zip_def t_rsub_def t_map_def wf_tensor_def)
  have ek: "\<exists>r. returned (Bottleneck_forward (k\<lparr>bk_cnf := Some ''IAND''\<rparr>) x) = Inr r
                 \<and> shape r = shape (Bottleneck_main_path k x) \<and> wf_tensor r
                 \<and> (\<forall>i<length (elems r). elems r ! i
                       = elems (Bottleneck_main_path k x) ! i
                           * (1 - elems (identity_path (bk_downsample k) x) ! i))"
    if "shape (identity_path (bk_downsample k) x) = shape (Bottleneck_main_path k x)
            \<and> wf_tensor (identity_path (bk_downsample k) x) \<and> wf_tensor (Bottleneck_main_path k x)"
    unfolding ik using that
    by (simp add: sew_function_def t_mul_def t_zip_def t_rsub_def t_map_def wf_tensor_def)
  show ?thesis
    using bb [of b] bk [of k] ib ik eb ek
    by (simp add: sew_function_def)
qed

text \<open>
  A block of each kind over identity layers whose first node has already seen one timestep,
  so that the residual path doubles its input: on \<open>[2, 3]\<close> the identity path gives
  \<open>[2, 3]\<close> and the residual path \<open>[4, 6]\<close>.
\<close>

theorem block_merge_argument_order_witness:
  "\<exists>b k. BasicBlock_init plain_env 64 64 1 None 1 64 1 None (Some ''ADD'') counting_node = Inr b
     \<and> k = Bottleneck_init plain_env 64 16 1 None 1 64 1 None (Some ''ADD'') counting_node
     \<and> identity_path (bb_downsample (b\<lparr>bb_node1 := (bb_node1 b)\<lparr>mem := 1\<rparr>\<rparr>)) (Tensor [1, 2] [2, 3])
         = Tensor [1, 2] [2, 3]
     \<and> BasicBlock_main_path (b\<lparr>bb_node1 := (bb_node1 b)\<lparr>mem := 1\<rparr>\<rparr>) (Tensor [1, 2] [2, 3])
         = Tensor [1, 2] [4, 6]
     \<and> wf_tensor (Tensor [1, 2] [2, 3 :: rat]) \<and> wf_tensor (Tensor [1, 2] [4, 6 :: rat])
     \<and> returned (BasicBlock_forward (b\<lparr>bb_node1 := (bb_node1 b)\<lparr>mem := 1\<rparr>,
                                        bb_cnf := Some ''IAND''\<rparr>) (Tensor [1, 2] [2, 3]))
         = Inr (Tensor [1, 2] [2 * (1 - 4), 3 * (1 - 6)])
     \<and> identity_path (bk_downsample (k\<lparr>bk_node1 := (bk_node1 k)\<lparr>mem := 1\<rparr>\<rparr>)) (Tensor [1, 2] [2, 3])
         = Tensor [1, 2] [2, 3]
     \<and> Bottleneck_main_path (k\<lparr>bk_node1 := (bk_node1 k)\<lparr>mem := 1\<rparr>\<rparr>) (Tensor [1, 2] [2, 3])
         = Tensor [1, 2] [4, 6]
     \<and> returned (Bottleneck_forward (k\<lparr>bk_node1 := (bk_node1 k)\<lparr>mem := 1\<rparr>,
                                        bk_cnf := Some ''IAND''\<rparr>) (Tensor [1, 2] [2, 3]))
         = Inr (Tensor [1, 2] [4 * (1 - 2), 6 * (1 - 3)])"
proof -
  define b :: "(rat, nat) basic_block" where
    "b = \<lparr>bb_conv1 = (\<lambda>x. x), bb_bn1 = (\<lambda>x. x), bb_node1 = new_node counting_node,
          bb_conv2 = (\<lambda>x. x), bb_bn2 = (\<lambda>x. x), bb_node2 = new_node counting_node,
          bb_downsample = None, bb_stride = 1, bb_cnf = Some ''ADD''\<rparr>"
  define k :: "(rat, nat) bottleneck" where
    "k = Bottleneck_init plain_env 64 16 1 None 1 64 1 None (Some ''ADD'') counting_node"
  let ?b = "b\<lparr>bb_node1 := (bb_node1 b)\<lparr>mem := 1\<rparr>\<rparr>"
  let ?k = "k\<lparr>bk_node1 := (bk_node1 k)\<lparr>mem := 1\<rparr>\<rparr>"
  let ?x = "Tensor [1, 2] [2, 3 :: rat]"
  have c: "BasicBlock_init plain_env 64 64 1 None 1 64 1 None (Some ''ADD'') counting_node = Inr b"
    by (simp add: b_def BasicBlock_init_def or_default_def plain_env_def conv3x3_def)
  have ib: "identity_path (bb_downsample ?b) ?x = ?x"
    and mb: "BasicBlock_main_path ?b ?x = Tensor [1, 2] [4, 6]"
    by (simp_all add: b_def identity_path_def BasicBlock_main_path_def node_call_def new_node_def
        counting_node_def t_map_def)
  have ik: "identity_path (bk_downsample ?k) ?x = ?x"
    and mk: "Bottleneck_main_path ?k ?x = Tensor [1, 2] [4, 6]"
    by (simp_all add: k_def Bottleneck_init_def or_default_def plain_env_def conv3x3_def
        conv1x1_def identity_path_def Bottleneck_main_path_def node_call_def new_node_def
        counting_node_def t_map_def Let_def)
  have wf: "wf_tensor ?x" "wf_tensor (Tensor [1, 2] [4, 6 :: rat])"
    by (simp_all add: wf_tensor_def)
  from block_merge_argument_order [of ?b ?x ?k]
  have "returned (BasicBlock_forward (?b\<lparr>bb_cnf := Some ''IAND''\<rparr>) ?x)
          = Inr (Tensor [1, 2] [2 * (1 - 4), 3 * (1 - 6)])"
    and "returned (Bottleneck_forward (?k\<lparr>bk_cnf := Some ''IAND''\<rparr>) ?x)
          = Inr (Tensor [1, 2] [4 * (1 - 2), 6 * (1 - 3)])"
    unfolding ib mb ik mk
    by (simp_all add: t_mul_def t_zip_def t_rsub_def t_map_def)
  with c ib mb ik mk wf show ?thesis
    by (intro exI [where x = b] exI [where x = k]) (simp add: k_def)
qed

section \<open>Properties of construction\<close>

lemma BasicBlock_init_grouped:
  "groups \<noteq> 1 \<or> base_width \<noteq> 64 \<Longrightarrow>
   BasicBlock_init env inpl planes stride downsample groups base_width dil nl cnf node
     = Inl (ValueError ''BasicBlock only supports groups=1 and base_width=64'')"
  by (auto simp add: BasicBlock_init_def Let_def)

lemma make_layer_BasicBlock_grouped:
  "groups \<noteq> 1 \<or> base_width \<noteq> 64 \<Longrightarrow>
   make_layer env nl groups base_width BasicBlock planes blocks stride dilate cnf node self
     = Inl (ValueError ''BasicBlock only supports groups=1 and base_width=64'')"
  by (simp add: make_layer_def block_init_def BasicBlock_init_grouped and_then_def Let_def split_def)

lemma SEWResNet_init_BasicBlock_grouped:
  assumes "groups \<noteq> 1 \<or> width_per_group \<noteq> 64" and "length layers = 4"
  shows "\<exists>e. SEWResNet_init env BasicBlock layers nc st et groups width_per_group r nl cnf kw = Inl e"
  using assms
  by (simp add: SEWResNet_init_def make_layer_BasicBlock_grouped and_then_def index_def Let_def
      getitem_def split: option.splits)

lemma SEWResNet_init_BasicBlock_grouped_error:
  assumes "groups \<noteq> 1 \<or> width_per_group \<noteq> 64" and "0 < length layers"
    and "kw_node_type kw = Some node" and "kw_dataset kw = Some ds"
    and "r = None \<or> (\<exists>l. r = Some l \<and> length l = 3)"
  shows "SEWResNet_init env BasicBlock layers nc st et groups width_per_group r nl cnf kw
         = Inl (ValueError ''BasicBlock only supports groups=1 and base_width=64'')"
  using assms
  by (auto simp add: SEWResNet_init_def make_layer_BasicBlock_grouped and_then_def index_def Let_def
      getitem_def or_default_def)

lemma repeat_init_ok: "repeat_init n (Inr b) = Inr (replicate n b)"
  by (induction n) (simp_all add: and_then_def)

lemma make_layer_BasicBlock_ok:
  assumes "\<not> dilate" and "dilation self \<le> 1"
  shows "\<exists>ls. make_layer env nl 1 64 BasicBlock planes blocks stride dilate cnf node self
           = Inr (ls, self\<lparr>inplanes := planes\<rparr>)"
  using assms
  by (simp add: make_layer_def block_init_def BasicBlock_init_def and_then_def Let_def
      repeat_init_ok)

lemma make_layer_Bottleneck_ok:
  "\<exists>ls. make_layer env nl groups bw Bottleneck planes blocks stride dilate cnf node self
           = Inr (ls, self\<lparr>inplanes := planes * 4,
                dilation := (if dilate then dilation self * stride else dilation self)\<rparr>)"
  by (simp add: make_layer_def block_init_def and_then_def Let_def
      repeat_init_ok Bottleneck_expansion_def)


lemma and_then_Inr: "and_then m f = Inr v \<longleftrightarrow> (\<exists>a. m = Inr a \<and> f a = Inr v)"
  by (cases m) (simp_all add: and_then_def)

lemma getitem_Inr: "getitem key v = Inr a \<longleftrightarrow> v = Some a"
  by (cases v) (simp_all add: getitem_def)

lemma getattr_Inr: "getattr name v = Inr a \<longleftrightarrow> v = Some a"
  by (cases v) (simp_all add: getattr_def)

lemma SEWResNet19_init_attrs:
  assumes "SEWResNet19_init env block layers nc st et g w r nl cnf kw = Inr net"
  shows "maxpool net = None \<and> layer4 net = None \<and> fc net = None
       \<and> once net = or_default False (kw_once kw) \<and> sum_output net = or_default True (kw_sum_output kw)
       \<and> step net = st"
  using assms
  by (auto simp: SEWResNet19_init_def and_then_Inr getitem_Inr Let_def split: if_splits)

lemma SEWResNetCifar_init_attrs:
  assumes "SEWResNetCifar_init env block layers nc st et g w r nl cnf kw = Inr net"
  shows "maxpool net \<noteq> None \<and> layer4 net = None
       \<and> once net = or_default False (kw_once kw) \<and> sum_output net = or_default True (kw_sum_output kw)
       \<and> step net = st"
  using assms
  by (auto simp: SEWResNetCifar_init_def and_then_Inr getitem_Inr Let_def split: if_splits)

lemma SEWResNet_init_attrs:
  assumes "SEWResNet_init env block layers nc st et g w r nl cnf kw = Inr net"
  shows "maxpool net \<noteq> None \<and> layer4 net \<noteq> None \<and> fc net \<noteq> None
       \<and> once net = or_default False (kw_once kw) \<and> sum_output net = or_default True (kw_sum_output kw)
       \<and> step net = st"
  using assms
  by (auto simp: SEWResNet_init_def and_then_Inr getitem_Inr Let_def split: if_splits)

lemma SEWResNet_body_no_maxpool:
  "maxpool net = None \<Longrightarrow> SEWResNet_body net x = Inl (AttributeError ''maxpool'')"
  by (simp add: SEWResNet_body_def getattr_def and_then_def Let_def split_def)

lemma SEWResNet_body_no_layer4:
  "layer4 net = None \<Longrightarrow> \<exists>e. SEWResNet_body net x = Inl e"
  by (auto simp add: SEWResNet_body_def getattr_def and_then_def Let_def split_def
      split: sum.splits option.splits)


text \<open>
  C4. In single-pass mode (\<^verbatim>\<open>once=True\<close>) a forward call is meant to run the network body
  once on the raw input. It does so for \<^verbatim>\<open>SEWResNet\<close> only: every \<^verbatim>\<open>SEWResNet19\<close>
  that its constructor built raises \<open>AttributeError\<close> for \<^verbatim>\<open>maxpool\<close> after the stem, and
  every \<^verbatim>\<open>SEWResNetCifar\<close> raises before it returns (for \<^verbatim>\<open>layer4\<close>, unless a stack
  raised earlier); neither returns a value.
\<close>

theorem forward_once_missing_attributes:
  fixes net net' :: "('a::field, 's) sew_net"
  assumes "kw_once kw = Some True"
  shows "(SEWResNet19_init env block layers nc st et g w r nl cnf kw = Inr net
            \<longrightarrow> SEWResNet19_forward net x = Inl (AttributeError ''maxpool''))
       \<and> (SEWResNetCifar_init env block layers nc st et g w r nl cnf kw = Inr net'
            \<longrightarrow> (\<exists>e. SEWResNetCifar_forward net' x = Inl e))"
proof (intro conjI impI)
  assume "SEWResNet19_init env block layers nc st et g w r nl cnf kw = Inr net"
  from SEWResNet19_init_attrs [OF this] assms
  have "maxpool net = None" and "once net" by (simp_all add: or_default_def)
  then show "SEWResNet19_forward net x = Inl (AttributeError ''maxpool'')"
    by (simp add: SEWResNet19_forward_def SEWResNet19_forward_once_def
        SEWResNet_body_no_maxpool and_then_def)
next
  assume "SEWResNetCifar_init env block layers nc st et g w r nl cnf kw = Inr net'"
  from SEWResNetCifar_init_attrs [OF this] assms
  have "layer4 net' = None" and o: "once net'" by (simp_all add: or_default_def)
  from SEWResNet_body_no_layer4 [OF this(1), of x]
  obtain e where "SEWResNet_body net' x = Inl e" ..
  with o show "\<exists>e. SEWResNetCifar_forward net' x = Inl e"
    by (simp add: SEWResNetCifar_forward_def SEWResNetCifar_forward_once_def and_then_def)
qed

lemma make_layer_BasicBlock_plain:
  "\<exists>ls. make_layer env f 1 64 BasicBlock planes blocks stride False cnf node
       \<lparr>inplanes = i, dilation = 1\<rparr> = Inr (ls, \<lparr>inplanes = planes, dilation = 1\<rparr>)"
  using make_layer_BasicBlock_ok [of False "\<lparr>inplanes = i, dilation = 1\<rparr>" env f planes blocks stride cnf node]
  by simp

lemma make_layer_Bottleneck_some:
  "\<exists>ls self'. make_layer env nl groups bw Bottleneck planes blocks stride dilate cnf node self
           = Inr (ls, self')"
  using make_layer_Bottleneck_ok [of env nl groups bw planes blocks stride dilate cnf node self]
  by blast

lemma SEWResNet_init_BasicBlock_ok:
  assumes "kw_node_type kw = Some node" and "kw_dataset kw = Some ds" and "4 \<le> length layers"
    and "r = None \<or> r = Some [False, False, False]"
  shows "\<exists>net. SEWResNet_init env BasicBlock layers nc st et 1 64 r nl cnf kw = Inr net"
proof -
  let ?f = "or_default (BatchNorm2d env) nl"
  obtain l1 where l1: "make_layer env ?f 1 64 BasicBlock 64 (layers ! 0) 1 False cnf node
       \<lparr>inplanes = 64, dilation = 1\<rparr> = Inr (l1, \<lparr>inplanes = 64, dilation = 1\<rparr>)"
    using make_layer_BasicBlock_plain by blast
  obtain l2 where l2: "make_layer env ?f 1 64 BasicBlock 128 (layers ! 1) 2 False cnf node
       \<lparr>inplanes = 64, dilation = 1\<rparr> = Inr (l2, \<lparr>inplanes = 128, dilation = 1\<rparr>)"
    using make_layer_BasicBlock_plain by blast
  obtain l3 where l3: "make_layer env ?f 1 64 BasicBlock 256 (layers ! 2) 2 False cnf node
       \<lparr>inplanes = 128, dilation = 1\<rparr> = Inr (l3, \<lparr>inplanes = 256, dilation = 1\<rparr>)"
    using make_layer_BasicBlock_plain by blast
  obtain l4 where l4: "make_layer env ?f 1 64 BasicBlock 512 (layers ! 3) 2 False cnf node
       \<lparr>inplanes = 256, dilation = 1\<rparr> = Inr (l4, \<lparr>inplanes = 512, dilation = 1\<rparr>)"
    using make_layer_BasicBlock_plain by blast
  have d: "or_default [False, False, False] r = [False, False, False]"
    using assms(4) by (auto simp: or_default_def)
  show ?thesis
    using assms(1-3) l1 l2 l3 l4
    by (auto simp add: SEWResNet_init_def and_then_def index_def Let_def getitem_def d)
qed

lemma SEWResNet19_init_BasicBlock_ok:
  assumes "kw_node_type kw = Some node" and "kw_dataset kw = Some ds" and "3 \<le> length layers"
    and "r = None \<or> r = Some [False, False, False]"
  shows "\<exists>net. SEWResNet19_init env BasicBlock layers nc st et 1 64 r nl cnf kw = Inr net"
proof -
  let ?f = "or_default (BatchNorm2d env) nl"
  obtain l1 where l1: "make_layer env ?f 1 64 BasicBlock 128 (layers ! 0) 1 False cnf node
       \<lparr>inplanes = 64, dilation = 1\<rparr> = Inr (l1, \<lparr>inplanes = 128, dilation = 1\<rparr>)"
    using make_layer_BasicBlock_plain by blast
  obtain l2 where l2: "make_layer env ?f 1 64 BasicBlock 256 (layers ! 1) 2 False cnf node
       \<lparr>inplanes = 128, dilation = 1\<rparr> = Inr (l2, \<lparr>inplanes = 256, dilation = 1\<rparr>)"
    using make_layer_BasicBlock_plain by blast
  obtain l3 where l3: "make_layer env ?f 1 64 BasicBlock 512 (layers ! 2) 2 False cnf node
       \<lparr>inplanes = 256, dilation = 1\<rparr> = Inr (l3, \<lparr>inplanes = 512, dilation = 1\<rparr>)"
    using make_layer_BasicBlock_plain by blast
  have d: "or_default [False, False, False] r = [False, False, False]"
    using assms(4) by (auto simp: or_default_def)
  show ?thesis
    using assms(1-3) l1 l2 l3
    by (auto simp add: SEWResNet19_init_def and_then_def index_def Let_def getitem_def d)
qed

lemma SEWResNetCifar_init_BasicBlock_ok:
  assumes "kw_node_type kw = Some node" and "kw_dataset kw = Some ds" and "3 \<le> length layers"
    and "r = None \<or> r = Some [False, False, False]"
  shows "\<exists>net. SEWResNetCifar_init env BasicBlock layers nc st et 1 64 r nl cnf kw = Inr net"
proof -
  let ?f = "or_default (BatchNorm2d env) nl"
  obtain l1 where l1: "make_layer env ?f 1 64 BasicBlock 128 (layers ! 0) 1 False cnf node
       \<lparr>inplanes = 64, dilation = 1\<rparr> = Inr (l1, \<lparr>inplanes = 128, dilation = 1\<rparr>)"
    using make_layer_BasicBlock_plain by blast
  obtain l2 where l2: "make_layer env ?f 1 64 BasicBlock 256 (layers ! 1) 2 False cnf node
       \<lparr>inplanes = 128, dilation = 1\<rparr> = Inr (l2, \<lparr>inplanes = 256, dilation = 1\<rparr>)"
    using make_layer_BasicBlock_plain by blast
  obtain l3 where l3: "make_layer env ?f 1 64 BasicBlock 512 (layers ! 2) 2 False cnf node
       \<lparr>inplanes = 256, dilation = 1\<rparr> = Inr (l3, \<lparr>inplanes = 512, dilation = 1\<rparr>)"
    using make_layer_BasicBlock_plain by blast
  have d: "or_default [False, False, False] r = [False, False, False]"
    using assms(4) by (auto simp: or_default_def)
  show ?thesis
    using assms(1-3) l1 l2 l3
    by (auto simp add: SEWResNetCifar_init_def and_then_def index_def Let_def getitem_def d)
qed

lemma SEWResNet_init_Bottleneck_ok:
  assumes "kw_node_type kw = Some node" and "kw_dataset kw = Some ds" and "4 \<le> length layers"
    and "length (or_default [False, False, False] r) = 3"
  shows "\<exists>net. SEWResNet_init env Bottleneck layers nc st et g w r nl cnf kw = Inr net"
proof -
  let ?f = "or_default (BatchNorm2d env) nl" and ?r = "or_default [False, False, False] r"
  obtain l1 s1 where l1: "make_layer env ?f g w Bottleneck 64 (layers ! 0) 1 False cnf node
       \<lparr>inplanes = 64, dilation = 1\<rparr> = Inr (l1, s1)"
    using make_layer_Bottleneck_some by blast
  obtain l2 s2 where l2: "make_layer env ?f g w Bottleneck 128 (layers ! 1) 2 (?r ! 0) cnf node s1
       = Inr (l2, s2)"
    using make_layer_Bottleneck_some by blast
  obtain l3 s3 where l3: "make_layer env ?f g w Bottleneck 256 (layers ! 2) 2 (?r ! 1) cnf node s2
       = Inr (l3, s3)"
    using make_layer_Bottleneck_some by blast
  obtain l4 s4 where l4: "make_layer env ?f g w Bottleneck 512 (layers ! 3) 2 (?r ! 2) cnf node s3
       = Inr (l4, s4)"
    using make_layer_Bottleneck_some by blast
  show ?thesis
    using assms l1 l2 l3 l4
    by (auto simp add: SEWResNet_init_def and_then_def index_def Let_def getitem_def)
qed

text \<open>
  The thirteen other factory functions construct a network for every configuration that
  gives a node type and a dataset and leaves the grouping and dilation parameters alone.
\<close>

lemma other_factories_construct:
  assumes "kw_node_type kw = Some node" and "kw_dataset kw = Some ds"
    and "kw_groups kw = None" and "kw_width_per_group kw = None"
    and "kw_replace_stride_with_dilation kw = None"
  shows "\<exists>net. sew_resnet18 load env False progress cnf kw = Inr net"
    and "\<exists>net. sew_resnet19 env False progress cnf kw = Inr net"
    and "\<exists>net. sew_resnet20 env False progress cnf kw = Inr net"
    and "\<exists>net. sew_resnet32 env False progress cnf kw = Inr net"
    and "\<exists>net. sew_resnet34 load env False progress cnf kw = Inr net"
    and "\<exists>net. sew_resnet44 env False progress cnf kw = Inr net"
    and "\<exists>net. sew_resnet50 load env False progress cnf kw = Inr net"
    and "\<exists>net. sew_resnet56 env False progress cnf kw = Inr net"
    and "\<exists>net. sew_resnet101 load env False progress cnf kw = Inr net"
    and "\<exists>net. sew_resnet152 load env False progress cnf kw = Inr net"
    and "\<exists>net. sew_resnext50_32x4d load env False progress cnf kw = Inr net"
    and "\<exists>net. sew_wide_resnet50_2 load env False progress cnf kw = Inr net"
    and "\<exists>net. sew_wide_resnet101_2 load env False progress cnf kw = Inr net"
proof -
  have basic: "\<exists>net. SEWResNet_call env BasicBlock ls cnf kw = Inr net" if "4 \<le> length ls" for ls
    unfolding SEWResNet_call_def using assms that
    by (simp only: or_default_def option.case) (rule SEWResNet_init_BasicBlock_ok; simp)
  have basic19: "\<exists>net. SEWResNet19_call env BasicBlock ls cnf kw = Inr net" if "3 \<le> length ls" for ls
    unfolding SEWResNet19_call_def using assms that
    by (simp only: or_default_def option.case) (rule SEWResNet19_init_BasicBlock_ok; simp)
  have cifar: "\<exists>net. SEWResNetCifar_call env BasicBlock ls cnf kw = Inr net" if "3 \<le> length ls" for ls
    unfolding SEWResNetCifar_call_def using assms that
    by (simp only: or_default_def option.case) (rule SEWResNetCifar_init_BasicBlock_ok; simp)
  have bottle: "\<exists>net. SEWResNet_call env Bottleneck ls cnf k = Inr net"
    if "4 \<le> length ls" and "kw_node_type k = Some node" and "kw_dataset k = Some ds"
      and "kw_replace_stride_with_dilation k = None" for ls k
    unfolding SEWResNet_call_def
    by (rule SEWResNet_init_Bottleneck_ok) (use that in \<open>simp_all add: or_default_def\<close>)
  have h: "(\<exists>net. sew_resnet_helper load env arch block ls False progress cnf k = Inr net)
        \<longleftrightarrow> (\<exists>net. SEWResNet_call env block ls cnf k = Inr net)" for arch block ls k
    by (cases "SEWResNet_call env block ls cnf k") (simp_all add: sew_resnet_helper_def and_then_def)
  show "\<exists>net. sew_resnet18 load env False progress cnf kw = Inr net"
    unfolding sew_resnet18_def h by (rule basic) simp
  show "\<exists>net. sew_resnet34 load env False progress cnf kw = Inr net"
    unfolding sew_resnet34_def h by (rule basic) simp
  show "\<exists>net. sew_resnet19 env False progress cnf kw = Inr net"
    unfolding sew_resnet19_def by (rule basic19) simp
  show "\<exists>net. sew_resnet20 env False progress cnf kw = Inr net"
    unfolding sew_resnet20_def by (rule cifar) simp
  show "\<exists>net. sew_resnet32 env False progress cnf kw = Inr net"
    unfolding sew_resnet32_def by (rule cifar) simp
  show "\<exists>net. sew_resnet44 env False progress cnf kw = Inr net"
    unfolding sew_resnet44_def by (rule cifar) simp
  show "\<exists>net. sew_resnet56 env False progress cnf kw = Inr net"
    unfolding sew_resnet56_def by (rule cifar) simp
  show "\<exists>net. sew_resnet50 load env False progress cnf kw = Inr net"
    unfolding sew_resnet50_def h by (rule bottle) (use assms in simp_all)
  show "\<exists>net. sew_resnet101 load env False progress cnf kw = Inr net"
    unfolding sew_resnet101_def h by (rule bottle) (use assms in simp_all)
  show "\<exists>net. sew_resnet152 load env False progress cnf kw = Inr net"
    unfolding sew_resnet152_def h by (rule bottle) (use assms in simp_all)
  show "\<exists>net. sew_resnext50_32x4d load env False progress cnf kw = Inr net"
    unfolding sew_resnext50_32x4d_def Let_def h by (rule bottle) (use assms in simp_all)
  show "\<exists>net. sew_wide_resnet50_2 load env False progress cnf kw = Inr net"
    unfolding sew_wide_resnet50_2_def Let_def h by (rule bottle) (use assms in simp_all)
  show "\<exists>net. sew_wide_resnet101_2 load env False progress cnf kw = Inr net"
    unfolding sew_wide_resnet101_2_def Let_def h by (rule bottle) (use assms in simp_all)
qed


theorem forward_once_missing_attributes_witness:
  "kw_once (plain_kwargs\<lparr>kw_once := Some True\<rparr>) = Some True
 \<and> (\<exists>net. sew_resnet19 plain_env False True (Some ''ADD'') (plain_kwargs\<lparr>kw_once := Some True\<rparr>)
             = Inr net
          \<and> SEWResNet19_forward net (Tensor [1, 3, 2, 2] (replicate 12 1))
             = Inl (AttributeError ''maxpool''))
 \<and> (\<exists>net e. sew_resnet20 plain_env False True (Some ''ADD'') (plain_kwargs\<lparr>kw_once := Some True\<rparr>)
             = Inr net
          \<and> SEWResNetCifar_forward net (Tensor [1, 3, 2, 2] (replicate 12 1)) = Inl e)"
proof -
  let ?kw = "plain_kwargs\<lparr>kw_once := Some True\<rparr>"
  have k: "kw_once ?kw = Some True" by simp
  have pre: "kw_node_type ?kw = Some counting_node" "kw_dataset ?kw = Some ''cifar10''"
    "kw_groups ?kw = None" "kw_width_per_group ?kw = None"
    "kw_replace_stride_with_dilation ?kw = None"
    by (simp_all add: plain_kwargs_def)
  obtain n19 where n19: "sew_resnet19 plain_env False True (Some ''ADD'') ?kw = Inr n19"
    using other_factories_construct(2) [OF pre] by blast
  obtain n20 where n20: "sew_resnet20 plain_env False True (Some ''ADD'') ?kw = Inr n20"
    using other_factories_construct(3) [OF pre] by blast
  note inst = forward_once_missing_attributes [OF k, where x = "Tensor [1, 3, 2, 2] (replicate 12 1)"]
  have "SEWResNet19_forward n19 (Tensor [1, 3, 2, 2] (replicate 12 1))
          = Inl (AttributeError ''maxpool'')"
    using n19 inst [THEN conjunct1] unfolding sew_resnet19_def SEWResNet19_call_def by blast
  moreover have "\<exists>e. SEWResNetCifar_forward n20 (Tensor [1, 3, 2, 2] (replicate 12 1)) = Inl e"
    using n20 inst [THEN conjunct2] unfolding sew_resnet20_def SEWResNetCifar_call_def by blast
  ultimately show ?thesis using k n19 n20 by blast
qed















lemma sew_resnext34_never:
  "\<exists>e. sew_resnext34_32x4d load env pretrained progress cnf kw = Inl e"
proof -
  have "\<exists>e. SEWResNet_call env BasicBlock [3, 4, 6, 3] cnf
      (kw\<lparr>kw_groups := Some 32, kw_width_per_group := Some 4\<rparr>) = Inl e"
    unfolding SEWResNet_call_def
    by (rule SEWResNet_init_BasicBlock_grouped) (simp_all add: or_default_def)
  then obtain e where "SEWResNet_call env BasicBlock [3, 4, 6, 3] cnf
      (kw\<lparr>kw_groups := Some 32, kw_width_per_group := Some 4\<rparr>) = Inl e" ..
  then show ?thesis
    by (simp add: sew_resnext34_32x4d_def sew_resnet_helper_def and_then_def)
qed

text \<open>
  C9. Two of the published factory functions never construct a model:
  \<^verbatim>\<open>sew_resnext34_32x4d\<close> raises for every configuration (with a node type and a dataset
  given, the \<open>ValueError\<close> of \<^verbatim>\<open>BasicBlock\<close>, which rejects the grouping the factory
  sets), and \<^verbatim>\<open>sew_resnext101_32x8d\<close> always raises \<open>TypeError\<close>.
\<close>

theorem resnext_factories_raise:
  "(\<exists>e. sew_resnext34_32x4d load env pretrained progress cnf kw = Inl e)
 \<and> sew_resnext101_32x8d load env pretrained progress cnf node kw
     = Inl (TypeError ''_sew_resnet() takes 6 positional arguments but 7 were given'')
 \<and> sew_resnext34_32x4d no_loader plain_env False True (Some ''ADD'') plain_kwargs
     = Inl (ValueError ''BasicBlock only supports groups=1 and base_width=64'')"
proof (intro conjI)
  show "\<exists>e. sew_resnext34_32x4d load env pretrained progress cnf kw = Inl e"
    by (rule sew_resnext34_never)
  show "sew_resnext101_32x8d load env pretrained progress cnf node kw
     = Inl (TypeError ''_sew_resnet() takes 6 positional arguments but 7 were given'')"
    by (simp add: sew_resnext101_32x8d_def)
  have "SEWResNet_call plain_env BasicBlock [3, 4, 6, 3] (Some ''ADD'')
          (plain_kwargs\<lparr>kw_groups := Some 32, kw_width_per_group := Some 4\<rparr>)
        = Inl (ValueError ''BasicBlock only supports groups=1 and base_width=64'')"
    unfolding SEWResNet_call_def
    by (rule SEWResNet_init_BasicBlock_grouped_error [where node = counting_node and ds = "''cifar10''"])
      (simp_all add: plain_kwargs_def or_default_def)
  then show "sew_resnext34_32x4d no_loader plain_env False True (Some ''ADD'') plain_kwargs
     = Inl (ValueError ''BasicBlock only supports groups=1 and base_width=64'')"
    by (simp add: sew_resnext34_32x4d_def sew_resnet_helper_def and_then_def)
qed



section \<open>Properties of the forward passes\<close>













lemma variants_impl:
  assumes "(fwd, body) \<in> variants" and "\<not> once net"
  shows "fwd net x = forward_impl body net x"
  using assms
  by (auto simp: variants_def SEWResNet_forward_def SEWResNet19_forward_def
      SEWResNetCifar_forward_def SEWResNet_forward_impl_def SEWResNet19_forward_impl_def
      SEWResNetCifar_forward_impl_def)

section \<open>Node state is the only thing a forward pass changes\<close>

lemma n_reset_node_call [simp]: "n_reset (snd (node_call n x)) = n_reset n"
  by (simp add: node_call_def n_reset_def split_def Let_def)

lemma BasicBlock_forward_frame:
  assumes "BasicBlock_forward b x = Inr (y, b')"
  shows "reset_block (BasicBlockObj b') = reset_block (BasicBlockObj b)"
proof (cases "bb_downsample b")
  case None
  with assms show ?thesis
    by (auto simp: BasicBlock_forward_def and_then_Inr Let_def split_def)
next
  case (Some p)
  obtain d sn where "p = (d, sn)" by (cases p)
  with Some assms show ?thesis
    by (auto simp: BasicBlock_forward_def and_then_Inr Let_def split_def)
qed

lemma Bottleneck_forward_frame:
  assumes "Bottleneck_forward b x = Inr (y, b')"
  shows "reset_block (BottleneckObj b') = reset_block (BottleneckObj b)"
proof (cases "bk_downsample b")
  case None
  with assms show ?thesis
    by (auto simp: Bottleneck_forward_def and_then_Inr Let_def split_def)
next
  case (Some p)
  obtain d sn where "p = (d, sn)" by (cases p)
  with Some assms show ?thesis
    by (auto simp: Bottleneck_forward_def and_then_Inr Let_def split_def)
qed

lemma block_forward_frame:
  assumes "block_forward b x = Inr (y, b')"
  shows "reset_block b' = reset_block b"
proof (cases b)
  case (BasicBlockObj c)
  with assms obtain c' where "BasicBlock_forward c x = Inr (y, c')" and "b' = BasicBlockObj c'"
    by (auto simp: and_then_Inr)
  with BasicBlockObj BasicBlock_forward_frame show ?thesis by metis
next
  case (BottleneckObj c)
  with assms obtain c' where "Bottleneck_forward c x = Inr (y, c')" and "b' = BottleneckObj c'"
    by (auto simp: and_then_Inr)
  with BottleneckObj Bottleneck_forward_frame show ?thesis by metis
qed

lemma Sequential_forward_frame:
  "Sequential_forward bs x = Inr (y, bs') \<Longrightarrow> map reset_block bs' = map reset_block bs"
proof (induction bs arbitrary: x bs')
  case Nil
  then show ?case by simp
next
  case (Cons b bs)
  then obtain u b1 bs1 where b: "block_forward b x = Inr (u, b1)"
    and r: "Sequential_forward bs u = Inr (y, bs1)" and e: "bs' = b1 # bs1"
    by (auto simp: and_then_Inr)
  from block_forward_frame [OF b] Cons.IH [OF r] e show ?case by simp
qed

lemma SEWResNet_body_frame:
  assumes "SEWResNet_body net x = Inr (y, net')"
  shows "reset net' = reset net"
proof -
  let ?x1 = "fst (node_call (node1 net) (bn1 net (conv1 net x)))"
  from assms obtain mp u1 l1 u2 l2 u3 l3 l4 u4 l4' where
    "maxpool net = Some mp"
    and s1: "Sequential_forward (layer1 net) (mp ?x1) = Inr (u1, l1)"
    and s2: "Sequential_forward (layer2 net) u1 = Inr (u2, l2)"
    and s3: "Sequential_forward (layer3 net) u2 = Inr (u3, l3)"
    and l4: "layer4 net = Some l4"
    and s4: "Sequential_forward l4 u3 = Inr (u4, l4')"
    and n: "net' = net\<lparr>node1 := snd (node_call (node1 net) (bn1 net (conv1 net x))),
                       layer1 := l1, layer2 := l2, layer3 := l3, layer4 := Some l4'\<rparr>"
    by (auto simp: SEWResNet_body_def and_then_Inr getattr_Inr Let_def split_def)
  show ?thesis
    using Sequential_forward_frame [OF s1] Sequential_forward_frame [OF s2]
      Sequential_forward_frame [OF s3] Sequential_forward_frame [OF s4] l4
    by (simp add: n reset_def)
qed

lemma SEWResNet19_body_frame:
  assumes "SEWResNet19_body net x = Inr (y, net')"
  shows "reset net' = reset net"
proof -
  let ?x1 = "fst (node_call (node1 net) (bn1 net (conv1 net x)))"
  from assms obtain u1 l1 u2 l2 u3 l3 n2 v where
    s1: "Sequential_forward (layer1 net) ?x1 = Inr (u1, l1)"
    and s2: "Sequential_forward (layer2 net) u1 = Inr (u2, l2)"
    and s3: "Sequential_forward (layer3 net) u2 = Inr (u3, l3)"
    and n2: "node2 net = Some n2"
    and n: "net' = net\<lparr>node1 := snd (node_call (node1 net) (bn1 net (conv1 net x))),
                       layer1 := l1, layer2 := l2, layer3 := l3,
                       node2 := Some (snd (node_call n2 v))\<rparr>"
    by (auto simp: SEWResNet19_body_def and_then_Inr getattr_Inr Let_def split_def)
  show ?thesis
    using Sequential_forward_frame [OF s1] Sequential_forward_frame [OF s2]
      Sequential_forward_frame [OF s3] n2
    by (simp add: n reset_def)
qed

lemma SEWResNetCifar_body_frame:
  assumes "SEWResNetCifar_body net x = Inr (y, net')"
  shows "reset net' = reset net"
proof -
  let ?x1 = "fst (node_call (node1 net) (bn1 net (conv1 net x)))"
  from assms obtain u1 l1 u2 l2 u3 l3 where
    s1: "Sequential_forward (layer1 net) ?x1 = Inr (u1, l1)"
    and s2: "Sequential_forward (layer2 net) u1 = Inr (u2, l2)"
    and s3: "Sequential_forward (layer3 net) u2 = Inr (u3, l3)"
    and n: "net' = net\<lparr>node1 := snd (node_call (node1 net) (bn1 net (conv1 net x))),
                       layer1 := l1, layer2 := l2, layer3 := l3\<rparr>"
    by (auto simp: SEWResNetCifar_body_def and_then_Inr getattr_Inr Let_def split_def)
  show ?thesis
    using Sequential_forward_frame [OF s1] Sequential_forward_frame [OF s2]
      Sequential_forward_frame [OF s3]
    by (simp add: n reset_def)
qed

lemma variants_frame:
  assumes "(fwd, body) \<in> variants" and "body net x = Inr (y, net')"
  shows "reset net' = reset net"
  using assms SEWResNet_body_frame SEWResNet19_body_frame SEWResNetCifar_body_frame
  by (auto simp: variants_def)

lemma looped_frame:
  assumes "(fwd, body) \<in> variants"
  shows "looped body net inputs ts = Inr (ys, net') \<Longrightarrow> reset net' = reset net"
proof (induction ts arbitrary: net ys)
  case Nil
  then show ?case by simp
next
  case (Cons t ts)
  then obtain u y n1 ys1 where "body net u = Inr (y, n1)"
    and "looped body n1 inputs ts = Inr (ys1, net')"
    by (auto simp: and_then_Inr)
  with Cons.IH variants_frame [OF assms] show ?case by metis
qed

lemma reset_idem [simp]: "reset (reset net) = reset net"
proof -
  have n: "n_reset (n_reset m) = n_reset m" for m :: "('a, 'b) node"
    by (simp add: n_reset_def)
  have b: "reset_block (reset_block c) = reset_block c" for c :: "('a, 'b) block"
    by (cases c) (auto simp: n option.map_comp comp_def split_def option.map_ident
        intro!: option.map_cong)
  show ?thesis
    by (simp add: reset_def n b option.map_comp comp_def cong: option.map_cong)
qed

lemma reset_fields [simp]:
  "step (reset net) = step net" "layer_by_layer (reset net) = layer_by_layer net"
  "encoder (reset net) = encoder net" "sum_output (reset net) = sum_output net"
  "once (reset net) = once net"
  by (simp_all add: reset_def)

lemma reset_eq_fields:
  assumes "reset a = reset b"
  shows "sum_output a = sum_output b" and "step a = step b"
    and "layer_by_layer a = layer_by_layer b" and "encoder a = encoder b" and "once a = once b"
proof -
  show "sum_output a = sum_output b"
    using arg_cong [OF assms, of sum_output] by simp
  show "step a = step b"
    using arg_cong [OF assms, of step] by simp
  show "layer_by_layer a = layer_by_layer b"
    using arg_cong [OF assms, of layer_by_layer] by simp
  show "encoder a = encoder b"
    using arg_cong [OF assms, of encoder] by simp
  show "once a = once b"
    using arg_cong [OF assms, of once] by simp
qed

lemma forward_impl_looped:
  fixes net :: "('a::field, 's) sew_net"
  assumes "(fwd, body) \<in> variants" and "\<not> layer_by_layer net"
  shows "forward_impl body net x = Inr (out, net') \<longleftrightarrow>
         (\<exists>ys. looped body (reset net) (encoder net x) [0..<step net] = Inr (ys, net')
              \<and> (if sum_output net then \<exists>v. sum_div_len ys = Inr v \<and> out = OTensor v
                  else out = OList ys))"
proof -
  have fl: "sum_output n1 = sum_output net"
    if "looped body (reset net) (encoder net x) [0..<step net] = Inr (ys, n1)" for ys n1
    using reset_eq_fields(1) [OF looped_frame [OF assms(1) that]] by simp
  show ?thesis
  proof
    assume "forward_impl body net x = Inr (out, net')"
    with assms(2) obtain ys n1 where
      l: "looped body (reset net) (encoder net x) [0..<step net] = Inr (ys, n1)"
      and r: "(if \<not> sum_output n1 then Inr (OList ys, n1)
               else and_then (sum_div_len ys) (\<lambda>v. Inr (OTensor v, n1))) = Inr (out, net')"
      by (auto simp: forward_impl_def Let_def and_then_Inr)
    from r fl [OF l] have "n1 = net'"
      by (auto simp: and_then_Inr split: if_splits)
    with l r fl [OF l]
    show "\<exists>ys. looped body (reset net) (encoder net x) [0..<step net] = Inr (ys, net')
              \<and> (if sum_output net then \<exists>v. sum_div_len ys = Inr v \<and> out = OTensor v
                  else out = OList ys)"
      by (auto simp: and_then_Inr split: if_splits)
  next
    assume "\<exists>ys. looped body (reset net) (encoder net x) [0..<step net] = Inr (ys, net')
              \<and> (if sum_output net then \<exists>v. sum_div_len ys = Inr v \<and> out = OTensor v
                  else out = OList ys)"
    then obtain ys where
      l: "looped body (reset net) (encoder net x) [0..<step net] = Inr (ys, net')"
      and o: "if sum_output net then \<exists>v. sum_div_len ys = Inr v \<and> out = OTensor v
              else out = OList ys"
      by blast
    from o fl [OF l] show "forward_impl body net x = Inr (out, net')"
      using assms(2) l
      by (auto simp: forward_impl_def Let_def and_then_def split: if_splits)
  qed
qed

lemma forward_impl_flattened:
  fixes net :: "('a::field, 's) sew_net"
  assumes "(fwd, body) \<in> variants" and "layer_by_layer net"
  shows "forward_impl body net x = Inr (out, net') \<longleftrightarrow>
         (\<exists>y z. body (reset net) (encoder net x) = Inr (y, net')
              \<and> rearrange_tb y (step net) = Inr z
              \<and> (if sum_output net then \<exists>v. t_mean0 z = Inr v \<and> out = OTensor v
                  else out = OTensor z))"
proof -
  have fl: "sum_output n1 = sum_output net \<and> step n1 = step net"
    if "body (reset net) (encoder net x) = Inr (y, n1)" for y n1
    using reset_eq_fields(1,2) [OF variants_frame [OF assms(1) that]] by simp
  show ?thesis
  proof
    assume "forward_impl body net x = Inr (out, net')"
    with assms(2) obtain y n1 z where
      l: "body (reset net) (encoder net x) = Inr (y, n1)"
      and z: "rearrange_tb y (step n1) = Inr z"
      and r: "(if sum_output n1 then and_then (t_mean0 z) (\<lambda>v. Inr (OTensor v, n1))
               else Inr (OTensor z, n1)) = Inr (out, net')"
      by (auto simp: forward_impl_def Let_def and_then_Inr)
    from r have "n1 = net'"
      by (auto simp: and_then_Inr split: if_splits)
    with l z r fl [OF l]
    show "\<exists>y z. body (reset net) (encoder net x) = Inr (y, net')
              \<and> rearrange_tb y (step net) = Inr z
              \<and> (if sum_output net then \<exists>v. t_mean0 z = Inr v \<and> out = OTensor v
                  else out = OTensor z)"
      by (auto simp: and_then_Inr split: if_splits)
  next
    assume "\<exists>y z. body (reset net) (encoder net x) = Inr (y, net')
              \<and> rearrange_tb y (step net) = Inr z
              \<and> (if sum_output net then \<exists>v. t_mean0 z = Inr v \<and> out = OTensor v
                  else out = OTensor z)"
    then obtain y z where
      l: "body (reset net) (encoder net x) = Inr (y, net')"
      and z: "rearrange_tb y (step net) = Inr z"
      and o: "if sum_output net then \<exists>v. t_mean0 z = Inr v \<and> out = OTensor v
              else out = OTensor z"
      by blast
    from o fl [OF l] show "forward_impl body net x = Inr (out, net')"
      using assms(2) l z
      by (auto simp: forward_impl_def Let_def and_then_def split: if_splits)
  qed
qed



section \<open>The forward passes on the small network\<close>

lemmas construct_eval = small_net_def SEWResNet_init_def make_layer_def block_init_def
  BasicBlock_init_def and_then_def getitem_def getattr_def or_default_def
  index_def Let_def plain_env_def plain_kwargs_def counting_node_def new_node_def conv3x3_def
  conv1x1_def repeat_encoder_def

lemmas forward_eval = SEWResNet_forward_def SEWResNet_forward_impl_def forward_impl_def
  SEWResNet_body_def reset_def n_reset_def node_call_def BasicBlock_forward_def
  sew_function_def t_add_def t_zip_def t_map_def t_index_def flatten1_def rearrange_tb_def
  t_mean0_def sum_div_len_def t_radd_def split_def upt_conv_Cons numeral_2_eq_2

lemma in_variants:
  "(SEWResNet_forward, SEWResNet_body) \<in> variants"
  "(SEWResNet19_forward, SEWResNet19_body) \<in> variants"
  "(SEWResNetCifar_forward, SEWResNetCifar_body) \<in> variants"
  by (simp_all add: variants_def)

lemma small_net_looped_mean:
  "\<exists>net net'. small_net False True = Inr net
     \<and> \<not> once net \<and> sum_output net \<and> \<not> layer_by_layer net \<and> step net = 2
     \<and> SEWResNet_forward net (Tensor [1, 1] [1]) = Inr (OTensor (Tensor [1, 1] [1088]), net')
     \<and> looped SEWResNet_body (reset net) (encoder net (Tensor [1, 1] [1])) [0..<step net]
         = Inr ([Tensor [1, 1] [16], Tensor [1, 1] [2160]], net')
     \<and> net' \<noteq> net"
  by (simp add: construct_eval forward_eval)

lemma small_net_flattened_mean:
  "\<exists>net net'. small_net True True = Inr net
     \<and> \<not> once net \<and> sum_output net \<and> layer_by_layer net \<and> step net = 2
     \<and> SEWResNet_forward net (Tensor [1, 1] [1]) = Inr (OTensor (Tensor [1, 1] [16]), net')
     \<and> SEWResNet_body (reset net) (encoder net (Tensor [1, 1] [1]))
         = Inr (Tensor [2, 1] [16, 16], net')"
  by (simp add: construct_eval forward_eval)







lemma forward_impl_frame:
  fixes net :: "('a::field, 's) sew_net"
  assumes "(fwd, body) \<in> variants" and "forward_impl body net x = Inr (out, net')"
  shows "reset net' = reset net"
proof (cases "layer_by_layer net")
  case True
  from assms(2) forward_impl_flattened [OF assms(1) True]
  obtain y where "body (reset net) (encoder net x) = Inr (y, net')" by blast
  from variants_frame [OF assms(1) this] show ?thesis by simp
next
  case False
  from assms(2) forward_impl_looped [OF assms(1) False]
  obtain ys where "looped body (reset net) (encoder net x) [0..<step net] = Inr (ys, net')"
    by blast
  from looped_frame [OF assms(1) this] show ?thesis by simp
qed

lemma forward_impl_reset_eq:
  fixes net :: "('a::field, 's) sew_net"
  assumes "reset net2 = reset net"
  shows "forward_impl body net2 x = forward_impl body net x"
  using assms reset_eq_fields(4) [OF assms] by (simp add: forward_impl_def)

text \<open>
  C6. For each of the three network classes with \<^verbatim>\<open>once=False\<close>, in the looped and in the
  flattened pass, a forward call resets every node before the body runs: two networks that
  differ in node state only behave alike, and a second forward call on the same input,
  made on the network as the first call left it, returns the same output.
\<close>

theorem forward_resets_node_state:
  fixes net :: "('a::field, 's) sew_net"
  assumes "(fwd, body) \<in> variants" and "\<not> once net"
  shows "(reset net2 = reset net \<longrightarrow> fwd net2 x = fwd net x)
       \<and> (fwd net x = Inr (out, net') \<longrightarrow> (\<exists>net''. fwd net' x = Inr (out, net'')))"
proof (intro conjI impI)
  assume r: "reset net2 = reset net"
  then have "\<not> once net2"
    using reset_eq_fields(5) [OF r] assms(2) by simp
  then show "fwd net2 x = fwd net x"
    using variants_impl [OF assms(1)] assms(2) forward_impl_reset_eq [OF r] by simp
next
  assume a: "fwd net x = Inr (out, net')"
  then have f: "forward_impl body net x = Inr (out, net')"
    using variants_impl [OF assms] by simp
  from forward_impl_frame [OF assms(1) f] have r: "reset net' = reset net" .
  then have "\<not> once net'"
    using reset_eq_fields(5) [OF r] assms(2) by simp
  then have "fwd net' x = forward_impl body net x"
    using variants_impl [OF assms(1)] forward_impl_reset_eq [OF r] by simp
  with f show "\<exists>net''. fwd net' x = Inr (out, net'')" by simp
qed

theorem forward_resets_node_state_witness:
  "\<exists>net net' net''. small_net False True = Inr net
     \<and> (SEWResNet_forward, SEWResNet_body) \<in> variants \<and> \<not> once net
     \<and> SEWResNet_forward net (Tensor [1, 1] [1]) = Inr (OTensor (Tensor [1, 1] [1088]), net')
     \<and> net' \<noteq> net
     \<and> SEWResNet_forward net' (Tensor [1, 1] [1]) = Inr (OTensor (Tensor [1, 1] [1088]), net'')"
proof -
  obtain net net' where n: "small_net False True = Inr net"
    and f: "\<not> once net"
    and r: "SEWResNet_forward net (Tensor [1, 1] [1]) = Inr (OTensor (Tensor [1, 1] [1088]), net')"
    and d: "net' \<noteq> net"
    using small_net_looped_mean by blast
  from forward_resets_node_state [OF in_variants(1) f, of net "Tensor [1, 1] [1]"
      "OTensor (Tensor [1, 1] [1088])" net'] r
  obtain net'' where
    "SEWResNet_forward net' (Tensor [1, 1] [1]) = Inr (OTensor (Tensor [1, 1] [1088]), net'')"
    by blast
  with n f r d show ?thesis
    by (intro exI [where x = net] exI [where x = net'] exI [where x = net''])
      (simp add: in_variants)
qed


section \<open>Regrouping the looped pass by component\<close>

lemma node_seq_Cons:
  "node_seq n (x # xs) =
     (fst (node_call n x) # fst (node_seq (snd (node_call n x)) xs),
      snd (node_seq (snd (node_call n x)) xs))"
  by (simp add: split_def Let_def)

declare node_seq.simps(2) [simp del]
declare node_seq_Cons [simp]

lemma length_node_seq [simp]: "length (fst (node_seq n xs)) = length xs"
  by (induction xs arbitrary: n) simp_all

lemma downsample_seq_Nil [simp]: "downsample_seq p [] = ([], p)"
  by (cases p) (auto simp: downsample_seq_def)

lemma BasicBlock_seq_Nil [simp]: "BasicBlock_seq b [] = Inr ([], b)"
  by (simp add: BasicBlock_seq_def and_then_def)

lemma Bottleneck_seq_Nil [simp]: "Bottleneck_seq b [] = Inr ([], b)"
  by (simp add: Bottleneck_seq_def and_then_def)



lemma block_seq_Nil [simp]: "block_seq b [] = Inr ([], b)"
  by (cases b) (simp_all add: and_then_def)


lemma Sequential_seq_Nil [simp]: "Sequential_seq bs [] = Inr ([], bs)"
  by (induction bs) (simp_all add: and_then_def)





lemma SEWResNet_body_seq_Nil [simp]: "SEWResNet_body_seq net [] = Inr ([], net)"
  by (simp add: SEWResNet_body_seq_def stack_attr_seq_def and_then_def)

lemma SEWResNet19_body_seq_Nil [simp]: "SEWResNet19_body_seq net [] = Inr ([], net)"
  by (simp add: SEWResNet19_body_seq_def node_attr_seq_def and_then_def)

lemma SEWResNetCifar_body_seq_Nil [simp]: "SEWResNetCifar_body_seq net [] = Inr ([], net)"
  by (simp add: SEWResNetCifar_body_seq_def and_then_def)






section \<open>Flattened lists of tensors\<close>
















section \<open>One flattened call against the regrouped loop\<close>

























section \<open>The flattened pass against the looped pass\<close>






section \<open>The two passes on the small network\<close>








lemmas construct_eval' = small_net_def small_net_unrolled_def SEWResNet_init_def make_layer_def
  block_init_def BasicBlock_init_def and_then_def getitem_def getattr_def or_default_def
  index_def Let_def plain_env_def plain_kwargs_def conv3x3_def conv1x1_def repeat_encoder_def


lemma small_net_unrolled_mean:
  "\<exists>net net'. small_net_unrolled = Inr net
     \<and> SEWResNet_forward net (Tensor [1, 1] [1]) = Inr (OTensor (Tensor [1, 1] [1088]), net')
     \<and> SEWResNet_body (reset net) (encoder net (Tensor [1, 1] [1]))
         = Inr (Tensor [2, 1] [16, 2160], net')"
  by (simp add: construct_eval' counting_node_def new_node_def unrolled_def chunks_def slices_def
      flat_def forward_eval)



end
